theory Spec2Isabelle
  imports
    Main
    "HOL-Library.Char_ord"
    "HOL-Library.List_Lexorder"
    "HOL-Library.Product_Lexorder"
    "HOL-Library.Option_ord"
begin

section \<open>Inventory manager: persistence and backup pruning\<close>

text \<open>
  A shallow embedding of \<^verbatim>\<open>inventory_manager/repositories.py\<close>, of the schema in
  \<^verbatim>\<open>inventory_manager/db.py\<close> and of \<^verbatim>\<open>prune_backups\<close> in
  \<^verbatim>\<open>inventory_manager/backup.py\<close>.

  The repositories talk to one SQLite connection. The store is a record of the five tables,
  each a list of rows in insertion order. Every SQL statement the repositories execute is a
  function on the store that enforces the constraints of \<^verbatim>\<open>SCHEMA_SQL\<close> for that
  statement (primary keys, the CHECK on \<^verbatim>\<open>vehicle_type\<close>, the UNIQUE tuple of Location
  with SQL's rule that NULLs are distinct, and the foreign keys with their ON DELETE
  actions; \<^verbatim>\<open>PRAGMA foreign_keys = ON\<close> is set by \<^verbatim>\<open>_create_connection\<close>).
  A statement that violates a constraint raises \<^verbatim>\<open>sqlite3.IntegrityError\<close> and changes
  nothing. A string is the list of the UTF-8 bytes of the Python string, which is what
  SQLite stores and compares; \<^verbatim>\<open>None\<close> is \<open>None\<close>.
  An \<open>int\<close> is a Python int; the \<^verbatim>\<open>sqlite3\<close> adapter refuses one outside 64 bits
  before the statement runs, and the model is of the calls it accepts.

  The clock (\<^verbatim>\<open>iso_now()\<close>) and the random generator (\<^verbatim>\<open>random.randint\<close>) are inputs:
  an operation takes the time it reads as \<open>now\<close> and the numbers it draws as a list.
\<close>

subsection \<open>Formatting\<close>

definition digit_char :: "nat \<Rightarrow> char" where
  "digit_char d = ''0123456789'' ! d"

fun digits10 :: "nat \<Rightarrow> string" where
  "digits10 n = (if n < 10 then [digit_char n] else digits10 (n div 10) @ [digit_char (n mod 10)])"

declare digits10.simps [simp del]

text \<open>The format \<^verbatim>\<open>f"{n:08d}"\<close> for a non-negative \<open>n\<close>: decimal, zero-padded to width 8.\<close>

definition fmt08d :: "nat \<Rightarrow> string" where
  "fmt08d n = replicate (8 - length (digits10 n)) (CHR ''0'') @ digits10 n"

text \<open>Python's \<^verbatim>\<open>str\<close> of an int.\<close>

definition str_int :: "int \<Rightarrow> string" where
  "str_int i = (if i < 0 then CHR ''-'' # digits10 (nat (- i)) else digits10 (nat i))"

definition is_digit :: "char \<Rightarrow> bool" where
  "is_digit c = (c \<in> set ''0123456789'')"

subsection \<open>Rows and the store\<close>

text \<open>
  The dataclasses of \<^verbatim>\<open>repositories.py\<close>, one record per table. Field names carry the
  table's initial because several tables share column names.
\<close>

record Vehicle =
  v_vehicle_id :: string
  v_vehicle_type :: string
  v_vehicle_name :: string
  v_vin :: string
  v_vehicle_number :: int
  v_mileage :: int
  v_last_service :: int
  v_created_at :: string
  v_updated_at :: string

record Location =
  l_location_id :: string
  l_vehicle_id :: "string option"
  l_side :: string
  l_row :: int
  l_bin :: int
  l_created_at :: string
  l_updated_at :: string
  l_last_audited_at :: "string option"

record InventoryItem =
  i_asset_id :: string
  i_description :: string
  i_location_id :: string
  i_consumable :: int
  i_manufacturer :: "string option"
  i_model :: "string option"
  i_serial_number :: "string option"
  i_created_at :: string
  i_updated_at :: string

record AuditRow =
  a_audit_id :: int
  a_asset_id :: string
  a_from_location_id :: "string option"
  a_to_location_id :: "string option"
  a_action :: string
  a_notes :: "string option"
  a_audited_at :: string
  a_user :: "string option"

text \<open>
  The store. \<open>seq_InventoryAudit\<close> is the AUTOINCREMENT counter SQLite keeps for
  \<^verbatim>\<open>InventoryAudit\<close>: the largest \<^verbatim>\<open>audit_id\<close> ever issued.
\<close>

record db =
  tbl_GlobalId :: "string list"
  tbl_Vehicle :: "Vehicle list"
  tbl_Location :: "Location list"
  tbl_Inventory :: "InventoryItem list"
  tbl_InventoryAudit :: "AuditRow list"
  seq_InventoryAudit :: int

definition empty_db :: db where
  "empty_db = \<lparr>tbl_GlobalId = [], tbl_Vehicle = [], tbl_Location = [], tbl_Inventory = [],
     tbl_InventoryAudit = [], seq_InventoryAudit = 0\<rparr>"

datatype constraint = PrimaryKey | Unique | Check | ForeignKey

datatype error = IntegrityError constraint

subsection \<open>The statements on GlobalId and the allocator\<close>

text \<open>\<^verbatim>\<open>INSERT INTO GlobalId (id) VALUES (?)\<close>; \<^verbatim>\<open>id\<close> is the primary key.\<close>

definition insert_GlobalId :: "string \<Rightarrow> db \<Rightarrow> error + db" where
  "insert_GlobalId id_str d =
     (if id_str \<in> set (tbl_GlobalId d) then Inl (IntegrityError PrimaryKey)
      else Inr (d\<lparr>tbl_GlobalId := tbl_GlobalId d @ [id_str]\<rparr>))"

text \<open>
  \<^verbatim>\<open>GlobalIdRepository.generate_global_id\<close>. The \<^verbatim>\<open>while True\<close> loop draws a number,
  formats it and tries the insert; on \<^verbatim>\<open>IntegrityError\<close> it rolls back and draws again.
  The list holds the numbers \<^verbatim>\<open>random.randint(1, 99999999)\<close> returns, in order; the
  result carries the draws not consumed. \<open>None\<close> stands for a loop that has not returned
  when the draws are used up.
\<close>

fun generate_global_id :: "nat list \<Rightarrow> db \<Rightarrow> (string \<times> nat list \<times> db) option" where
  "generate_global_id [] d = None"
| "generate_global_id (r # rs) d =
     (case insert_GlobalId (fmt08d r) d of
        Inr d' \<Rightarrow> Some (fmt08d r, rs, d')
      | Inl e \<Rightarrow> generate_global_id rs d)"

text \<open>The values \<^verbatim>\<open>random.randint(1, 99999999)\<close> can return.\<close>

definition randint_range :: "nat \<Rightarrow> bool" where
  "randint_range r = (1 \<le> r \<and> r \<le> 99999999)"

subsection \<open>Executing a statement\<close>

text \<open>
  \<^verbatim>\<open>self.conn.execute(...)\<close> followed by \<^verbatim>\<open>self.conn.commit()\<close>. A statement is a
  function from the store to the new store or to the error it raises. When it raises, the
  exception leaves the method before the commit and the statement has changed nothing.
\<close>

definition execute_commit :: "(db \<Rightarrow> error + db) \<Rightarrow> db \<Rightarrow> (error + unit) \<times> db" where
  "execute_commit stmt d = (case stmt d of Inl e \<Rightarrow> (Inl e, d) | Inr d' \<Rightarrow> (Inr (), d'))"

text \<open>A keyword argument of an update: \<open>None\<close> keeps the stored value.\<close>

definition patch :: "'a option \<Rightarrow> 'a \<Rightarrow> 'a" where
  "patch new old = (case new of None \<Rightarrow> old | Some x \<Rightarrow> x)"

subsection \<open>VehicleRepository\<close>

definition vehicle_type_check :: "string \<Rightarrow> bool" where
  "vehicle_type_check t = (t = ''Truck'' \<or> t = ''Trailer'')"

definition insert_Vehicle :: "Vehicle \<Rightarrow> db \<Rightarrow> error + db" where
  "insert_Vehicle v d =
     (if \<not> vehicle_type_check (v_vehicle_type v) then Inl (IntegrityError Check)
      else if v_vehicle_id v \<in> set (map v_vehicle_id (tbl_Vehicle d))
        then Inl (IntegrityError PrimaryKey)
      else Inr (d\<lparr>tbl_Vehicle := tbl_Vehicle d @ [v]\<rparr>))"

definition create_vehicle ::
  "string \<Rightarrow> nat list \<Rightarrow> string \<Rightarrow> string \<Rightarrow> string \<Rightarrow> int \<Rightarrow> int \<Rightarrow> int \<Rightarrow> db
     \<Rightarrow> ((error + Vehicle) \<times> nat list \<times> db) option" where
  "create_vehicle now draws vehicle_type vehicle_name vin vehicle_number mileage last_service d =
     (case generate_global_id draws d of
        None \<Rightarrow> None
      | Some (vehicle_id, draws', d1) \<Rightarrow>
          (let v = \<lparr>v_vehicle_id = vehicle_id, v_vehicle_type = vehicle_type,
                     v_vehicle_name = vehicle_name, v_vin = vin,
                     v_vehicle_number = vehicle_number, v_mileage = mileage,
                     v_last_service = last_service, v_created_at = now, v_updated_at = now\<rparr>
           in case insert_Vehicle v d1 of
                Inl e \<Rightarrow> Some (Inl e, draws', d1)
              | Inr d2 \<Rightarrow> Some (Inr v, draws', d2)))"

definition list_vehicles :: "db \<Rightarrow> Vehicle list" where
  "list_vehicles d = sort_key v_vehicle_name (tbl_Vehicle d)"

definition get_vehicle :: "db \<Rightarrow> string \<Rightarrow> Vehicle option" where
  "get_vehicle d vehicle_id = find (\<lambda>v. v_vehicle_id v = vehicle_id) (tbl_Vehicle d)"

text \<open>The SET clause \<^verbatim>\<open>update_vehicle\<close> builds: the provided columns and \<^verbatim>\<open>updated_at\<close>.\<close>

definition set_Vehicle ::
  "string option \<Rightarrow> string option \<Rightarrow> string option \<Rightarrow> int option \<Rightarrow> int option \<Rightarrow> int option
     \<Rightarrow> string \<Rightarrow> Vehicle \<Rightarrow> Vehicle" where
  "set_Vehicle vehicle_type vehicle_name vin vehicle_number mileage last_service now v =
     v\<lparr>v_vehicle_type := patch vehicle_type (v_vehicle_type v),
       v_vehicle_name := patch vehicle_name (v_vehicle_name v),
       v_vin := patch vin (v_vin v),
       v_vehicle_number := patch vehicle_number (v_vehicle_number v),
       v_mileage := patch mileage (v_mileage v),
       v_last_service := patch last_service (v_last_service v),
       v_updated_at := now\<rparr>"

text \<open>
  \<^verbatim>\<open>UPDATE Vehicle SET ... WHERE vehicle_id = ?\<close>. The CHECK on \<^verbatim>\<open>vehicle_type\<close>
  can fail only when that column is set and a row is updated.
\<close>

definition update_Vehicle ::
  "string \<Rightarrow> string option \<Rightarrow> string option \<Rightarrow> string option \<Rightarrow> int option \<Rightarrow> int option
     \<Rightarrow> int option \<Rightarrow> string \<Rightarrow> db \<Rightarrow> error + db" where
  "update_Vehicle vehicle_id vehicle_type vehicle_name vin vehicle_number mileage last_service now d =
     (if (\<exists>v \<in> set (tbl_Vehicle d). v_vehicle_id v = vehicle_id)
         \<and> (case vehicle_type of None \<Rightarrow> False | Some t \<Rightarrow> \<not> vehicle_type_check t)
      then Inl (IntegrityError Check)
      else Inr (d\<lparr>tbl_Vehicle :=
             map (\<lambda>v. if v_vehicle_id v = vehicle_id
                       then set_Vehicle vehicle_type vehicle_name vin vehicle_number mileage
                              last_service now v
                       else v) (tbl_Vehicle d)\<rparr>))"

definition update_vehicle ::
  "string \<Rightarrow> string \<Rightarrow> string option \<Rightarrow> string option \<Rightarrow> string option \<Rightarrow> int option \<Rightarrow> int option
     \<Rightarrow> int option \<Rightarrow> db \<Rightarrow> (error + unit) \<times> db" where
  "update_vehicle now vehicle_id vehicle_type vehicle_name vin vehicle_number mileage last_service d =
     (if vehicle_type = None \<and> vehicle_name = None \<and> vin = None \<and> vehicle_number = None
         \<and> mileage = None \<and> last_service = None
      then (Inr (), d)
      else execute_commit
             (update_Vehicle vehicle_id vehicle_type vehicle_name vin vehicle_number mileage
                last_service now) d)"

text \<open>
  \<^verbatim>\<open>DELETE FROM Vehicle WHERE vehicle_id = ?\<close>. The foreign key of Location is
  \<^verbatim>\<open>ON DELETE SET NULL\<close>: the rows that reference a deleted vehicle get a NULL
  \<^verbatim>\<open>vehicle_id\<close>. NULLs are distinct in a UNIQUE constraint, so this cannot fail.
\<close>

definition delete_Vehicle :: "string \<Rightarrow> db \<Rightarrow> error + db" where
  "delete_Vehicle vehicle_id d =
     (if \<exists>v \<in> set (tbl_Vehicle d). v_vehicle_id v = vehicle_id
      then Inr (d\<lparr>tbl_Vehicle := filter (\<lambda>v. v_vehicle_id v \<noteq> vehicle_id) (tbl_Vehicle d),
                  tbl_Location :=
                    map (\<lambda>l. if l_vehicle_id l = Some vehicle_id then l\<lparr>l_vehicle_id := None\<rparr> else l)
                      (tbl_Location d)\<rparr>)
      else Inr d)"

definition delete_vehicle :: "string \<Rightarrow> db \<Rightarrow> (error + unit) \<times> db" where
  "delete_vehicle vehicle_id d = execute_commit (delete_Vehicle vehicle_id) d"

subsection \<open>LocationRepository\<close>

text \<open>
  \<^verbatim>\<open>UNIQUE (vehicle_id, side, row, bin)\<close>: two rows collide when the four columns are
  equal and \<^verbatim>\<open>vehicle_id\<close> is not NULL.
\<close>

definition uq_location_vehicle_side_row_bin :: "Location \<Rightarrow> Location \<Rightarrow> bool" where
  "uq_location_vehicle_side_row_bin a b =
     (l_vehicle_id a \<noteq> None \<and> l_vehicle_id a = l_vehicle_id b \<and> l_side a = l_side b
      \<and> l_row a = l_row b \<and> l_bin a = l_bin b)"

definition fk_vehicle :: "db \<Rightarrow> string option \<Rightarrow> bool" where
  "fk_vehicle d vehicle_id =
     (case vehicle_id of None \<Rightarrow> True
      | Some v \<Rightarrow> v \<in> set (map v_vehicle_id (tbl_Vehicle d)))"

definition fk_location :: "db \<Rightarrow> string option \<Rightarrow> bool" where
  "fk_location d location_id =
     (case location_id of None \<Rightarrow> True
      | Some l \<Rightarrow> l \<in> set (map l_location_id (tbl_Location d)))"

definition insert_Location :: "Location \<Rightarrow> db \<Rightarrow> error + db" where
  "insert_Location l d =
     (if l_location_id l \<in> set (map l_location_id (tbl_Location d))
        then Inl (IntegrityError PrimaryKey)
      else if \<exists>r \<in> set (tbl_Location d). uq_location_vehicle_side_row_bin l r
        then Inl (IntegrityError Unique)
      else if \<not> fk_vehicle d (l_vehicle_id l) then Inl (IntegrityError ForeignKey)
      else Inr (d\<lparr>tbl_Location := tbl_Location d @ [l]\<rparr>))"

definition create_location ::
  "string \<Rightarrow> nat list \<Rightarrow> string \<Rightarrow> int \<Rightarrow> int \<Rightarrow> string option \<Rightarrow> db
     \<Rightarrow> ((error + Location) \<times> nat list \<times> db) option" where
  "create_location now draws side row bin vehicle_id d =
     (case generate_global_id draws d of
        None \<Rightarrow> None
      | Some (location_id, draws', d1) \<Rightarrow>
          (let l = \<lparr>l_location_id = location_id, l_vehicle_id = vehicle_id, l_side = side,
                     l_row = row, l_bin = bin, l_created_at = now, l_updated_at = now,
                     l_last_audited_at = None\<rparr>
           in case insert_Location l d1 of
                Inl e \<Rightarrow> Some (Inl e, draws', d1)
              | Inr d2 \<Rightarrow> Some (Inr l, draws', d2)))"

text \<open>
  \<^verbatim>\<open>list_locations\<close>: \<^verbatim>\<open>if vehicle_id:\<close> is false for \<^verbatim>\<open>None\<close> and for the empty
  string. NULL sorts first in SQLite, as \<open>None\<close> does in the order on \<open>option\<close>.
\<close>

definition list_locations :: "db \<Rightarrow> string option \<Rightarrow> Location list" where
  "list_locations d vehicle_id =
     (if vehicle_id \<noteq> None \<and> vehicle_id \<noteq> Some []
      then sort_key (\<lambda>l. (l_side l, l_row l, l_bin l))
             (filter (\<lambda>l. l_vehicle_id l = vehicle_id) (tbl_Location d))
      else sort_key (\<lambda>l. (l_vehicle_id l, l_side l, l_row l, l_bin l)) (tbl_Location d))"

definition get_location :: "db \<Rightarrow> string \<Rightarrow> Location option" where
  "get_location d location_id = find (\<lambda>l. l_location_id l = location_id) (tbl_Location d)"

definition set_Location ::
  "string option \<Rightarrow> int option \<Rightarrow> int option \<Rightarrow> string option \<Rightarrow> string option \<Rightarrow> string
     \<Rightarrow> Location \<Rightarrow> Location" where
  "set_Location side row bin vehicle_id last_audited_at now l =
     l\<lparr>l_side := patch side (l_side l),
       l_row := patch row (l_row l),
       l_bin := patch bin (l_bin l),
       l_vehicle_id := (case vehicle_id of None \<Rightarrow> l_vehicle_id l | Some v \<Rightarrow> Some v),
       l_last_audited_at :=
         (case last_audited_at of None \<Rightarrow> l_last_audited_at l | Some t \<Rightarrow> Some t),
       l_updated_at := now\<rparr>"

text \<open>
  \<^verbatim>\<open>UPDATE Location SET ... WHERE location_id = ?\<close>. The UNIQUE tuple is checked for
  each updated row against the other rows, the foreign key when \<^verbatim>\<open>vehicle_id\<close> is set.
\<close>

definition update_Location ::
  "string \<Rightarrow> string option \<Rightarrow> int option \<Rightarrow> int option \<Rightarrow> string option \<Rightarrow> string option
     \<Rightarrow> string \<Rightarrow> db \<Rightarrow> error + db" where
  "update_Location location_id side row bin vehicle_id last_audited_at now d =
     (let rows = map (\<lambda>l. if l_location_id l = location_id
                           then set_Location side row bin vehicle_id last_audited_at now l
                           else l) (tbl_Location d)
      in if \<exists>l \<in> set rows. l_location_id l = location_id
              \<and> 1 < length (filter (uq_location_vehicle_side_row_bin l) rows)
           then Inl (IntegrityError Unique)
         else if (\<exists>l \<in> set rows. l_location_id l = location_id)
              \<and> vehicle_id \<noteq> None \<and> \<not> fk_vehicle d vehicle_id
           then Inl (IntegrityError ForeignKey)
         else Inr (d\<lparr>tbl_Location := rows\<rparr>))"

definition update_location ::
  "string \<Rightarrow> string \<Rightarrow> string option \<Rightarrow> int option \<Rightarrow> int option \<Rightarrow> string option
     \<Rightarrow> string option \<Rightarrow> db \<Rightarrow> (error + unit) \<times> db" where
  "update_location now location_id side row bin vehicle_id last_audited_at d =
     (if side = None \<and> row = None \<and> bin = None \<and> vehicle_id = None \<and> last_audited_at = None
      then (Inr (), d)
      else execute_commit
             (update_Location location_id side row bin vehicle_id last_audited_at now) d)"

text \<open>
  \<^verbatim>\<open>DELETE FROM Location WHERE location_id = ?\<close>. Inventory references Location with
  \<^verbatim>\<open>ON DELETE RESTRICT\<close>; InventoryAudit references it twice with no action given,
  which also forbids deleting a referenced row.
\<close>

definition delete_Location :: "string \<Rightarrow> db \<Rightarrow> error + db" where
  "delete_Location location_id d =
     (if \<not> (\<exists>l \<in> set (tbl_Location d). l_location_id l = location_id) then Inr d
      else if \<exists>i \<in> set (tbl_Inventory d). i_location_id i = location_id
        then Inl (IntegrityError ForeignKey)
      else if \<exists>a \<in> set (tbl_InventoryAudit d).
                a_from_location_id a = Some location_id \<or> a_to_location_id a = Some location_id
        then Inl (IntegrityError ForeignKey)
      else Inr (d\<lparr>tbl_Location :=
                   filter (\<lambda>l. l_location_id l \<noteq> location_id) (tbl_Location d)\<rparr>))"

definition delete_location :: "string \<Rightarrow> db \<Rightarrow> (error + unit) \<times> db" where
  "delete_location location_id d = execute_commit (delete_Location location_id) d"

subsection \<open>InventoryRepository: writes\<close>

definition insert_Inventory :: "InventoryItem \<Rightarrow> db \<Rightarrow> error + db" where
  "insert_Inventory i d =
     (if i_asset_id i \<in> set (map i_asset_id (tbl_Inventory d))
        then Inl (IntegrityError PrimaryKey)
      else if \<not> fk_location d (Some (i_location_id i)) then Inl (IntegrityError ForeignKey)
      else Inr (d\<lparr>tbl_Inventory := tbl_Inventory d @ [i]\<rparr>))"

definition create_inventory ::
  "string \<Rightarrow> nat list \<Rightarrow> string \<Rightarrow> string \<Rightarrow> bool \<Rightarrow> string option \<Rightarrow> string option
     \<Rightarrow> string option \<Rightarrow> db \<Rightarrow> ((error + InventoryItem) \<times> nat list \<times> db) option" where
  "create_inventory now draws description location_id consumable manufacturer model serial_number d =
     (case generate_global_id draws d of
        None \<Rightarrow> None
      | Some (asset_id, draws', d1) \<Rightarrow>
          (let i = \<lparr>i_asset_id = asset_id, i_description = description,
                     i_location_id = location_id,
                     i_consumable = (if consumable then 1 else 0),
                     i_manufacturer = manufacturer, i_model = model,
                     i_serial_number = serial_number, i_created_at = now, i_updated_at = now\<rparr>
           in case insert_Inventory i d1 of
                Inl e \<Rightarrow> Some (Inl e, draws', d1)
              | Inr d2 \<Rightarrow> Some (Inr i, draws', d2)))"

definition set_Inventory ::
  "string option \<Rightarrow> string option \<Rightarrow> int option \<Rightarrow> string option \<Rightarrow> string option
     \<Rightarrow> string option \<Rightarrow> string \<Rightarrow> InventoryItem \<Rightarrow> InventoryItem" where
  "set_Inventory description location_id consumable_value manufacturer model serial_number now i =
     i\<lparr>i_description := patch description (i_description i),
       i_location_id := patch location_id (i_location_id i),
       i_consumable := patch consumable_value (i_consumable i),
       i_manufacturer := (case manufacturer of None \<Rightarrow> i_manufacturer i | Some x \<Rightarrow> Some x),
       i_model := (case model of None \<Rightarrow> i_model i | Some x \<Rightarrow> Some x),
       i_serial_number :=
         (case serial_number of None \<Rightarrow> i_serial_number i | Some x \<Rightarrow> Some x),
       i_updated_at := now\<rparr>"

definition update_Inventory ::
  "string \<Rightarrow> string option \<Rightarrow> string option \<Rightarrow> int option \<Rightarrow> string option \<Rightarrow> string option
     \<Rightarrow> string option \<Rightarrow> string \<Rightarrow> db \<Rightarrow> error + db" where
  "update_Inventory asset_id description location_id consumable_value manufacturer model
       serial_number now d =
     (if (\<exists>i \<in> set (tbl_Inventory d). i_asset_id i = asset_id)
         \<and> location_id \<noteq> None \<and> \<not> fk_location d location_id
      then Inl (IntegrityError ForeignKey)
      else Inr (d\<lparr>tbl_Inventory :=
             map (\<lambda>i. if i_asset_id i = asset_id
                       then set_Inventory description location_id consumable_value manufacturer
                              model serial_number now i
                       else i) (tbl_Inventory d)\<rparr>))"

definition update_inventory ::
  "string \<Rightarrow> string \<Rightarrow> string option \<Rightarrow> string option \<Rightarrow> bool option \<Rightarrow> string option
     \<Rightarrow> string option \<Rightarrow> string option \<Rightarrow> db \<Rightarrow> (error + unit) \<times> db" where
  "update_inventory now asset_id description location_id consumable manufacturer model
       serial_number d =
     (let consumable_value =
            (case consumable of Some True \<Rightarrow> Some 1 | Some False \<Rightarrow> Some 0 | None \<Rightarrow> None)
      in if description = None \<and> location_id = None \<and> consumable_value = None
            \<and> manufacturer = None \<and> model = None \<and> serial_number = None
         then (Inr (), d)
         else execute_commit
                (update_Inventory asset_id description location_id consumable_value manufacturer
                   model serial_number now) d)"

text \<open>
  \<^verbatim>\<open>DELETE FROM Inventory WHERE asset_id = ?\<close>; the audit rows of a deleted item go
  with it (\<^verbatim>\<open>ON DELETE CASCADE\<close>).
\<close>

definition delete_Inventory :: "string \<Rightarrow> db \<Rightarrow> error + db" where
  "delete_Inventory asset_id d =
     (if \<exists>i \<in> set (tbl_Inventory d). i_asset_id i = asset_id
      then Inr (d\<lparr>tbl_Inventory := filter (\<lambda>i. i_asset_id i \<noteq> asset_id) (tbl_Inventory d),
                  tbl_InventoryAudit :=
                    filter (\<lambda>a. a_asset_id a \<noteq> asset_id) (tbl_InventoryAudit d)\<rparr>)
      else Inr d)"

definition delete_inventory :: "string \<Rightarrow> db \<Rightarrow> (error + unit) \<times> db" where
  "delete_inventory asset_id d = execute_commit (delete_Inventory asset_id) d"

definition get_inventory :: "db \<Rightarrow> string \<Rightarrow> InventoryItem option" where
  "get_inventory d asset_id = find (\<lambda>i. i_asset_id i = asset_id) (tbl_Inventory d)"

definition list_inventory :: "db \<Rightarrow> string option \<Rightarrow> InventoryItem list" where
  "list_inventory d location_id =
     (if location_id \<noteq> None \<and> location_id \<noteq> Some []
      then sort_key i_description
             (filter (\<lambda>i. Some (i_location_id i) = location_id) (tbl_Inventory d))
      else sort_key i_description (tbl_Inventory d))"

subsection \<open>AuditRepository\<close>

text \<open>
  \<^verbatim>\<open>INSERT INTO InventoryAudit\<close>: the AUTOINCREMENT key is one more than the largest
  key ever used; the three foreign keys are checked. The result carries the new key
  (\<^verbatim>\<open>cursor.lastrowid\<close>).
\<close>

definition next_audit_id :: "db \<Rightarrow> int" where
  "next_audit_id d = fold max (map a_audit_id (tbl_InventoryAudit d)) (seq_InventoryAudit d) + 1"

definition insert_InventoryAudit ::
  "string \<Rightarrow> string option \<Rightarrow> string option \<Rightarrow> string \<Rightarrow> string option \<Rightarrow> string
     \<Rightarrow> string option \<Rightarrow> db \<Rightarrow> error + (int \<times> db)" where
  "insert_InventoryAudit asset_id from_location_id to_location_id action notes timestamp user d =
     (if asset_id \<notin> set (map i_asset_id (tbl_Inventory d)) \<or> \<not> fk_location d from_location_id
         \<or> \<not> fk_location d to_location_id
      then Inl (IntegrityError ForeignKey)
      else Inr (next_audit_id d,
             d\<lparr>tbl_InventoryAudit := tbl_InventoryAudit d @
                  [\<lparr>a_audit_id = next_audit_id d, a_asset_id = asset_id,
                    a_from_location_id = from_location_id, a_to_location_id = to_location_id,
                    a_action = action, a_notes = notes, a_audited_at = timestamp,
                    a_user = user\<rparr>],
               seq_InventoryAudit := next_audit_id d\<rparr>))"

text \<open>
  \<^verbatim>\<open>record_audit\<close>: \<^verbatim>\<open>timestamp = audited_at or iso_now()\<close> takes the caller's
  \<^verbatim>\<open>audited_at\<close> unless it is \<^verbatim>\<open>None\<close> or empty.
\<close>

definition record_audit ::
  "string \<Rightarrow> string \<Rightarrow> string \<Rightarrow> string option \<Rightarrow> string option \<Rightarrow> string option
     \<Rightarrow> string option \<Rightarrow> string option \<Rightarrow> db \<Rightarrow> (error + int) \<times> db" where
  "record_audit now asset_id action from_location_id to_location_id notes user audited_at d =
     (let timestamp = (case audited_at of None \<Rightarrow> now | Some t \<Rightarrow> if t = [] then now else t)
      in case insert_InventoryAudit asset_id from_location_id to_location_id action notes
                timestamp user d of
           Inl e \<Rightarrow> (Inl e, d)
         | Inr (audit_id, d') \<Rightarrow> (Inr audit_id, d'))"

definition list_audits_for_asset :: "db \<Rightarrow> string \<Rightarrow> AuditRow list" where
  "list_audits_for_asset d asset_id =
     rev (sort_key a_audit_id (filter (\<lambda>a. a_asset_id a = asset_id) (tbl_InventoryAudit d)))"

subsection \<open>SQL pieces of the filtered listings\<close>

definition lower_ascii :: "char \<Rightarrow> char" where
  "lower_ascii c =
     (if CHR ''A'' \<le> c \<and> c \<le> CHR ''Z'' then char_of (of_char c + (32::nat)) else c)"

definition upper_ascii :: "char \<Rightarrow> char" where
  "upper_ascii c =
     (if CHR ''a'' \<le> c \<and> c \<le> CHR ''z'' then char_of (of_char c - (32::nat)) else c)"

text \<open>
  A text reaches SQLite as the UTF-8 bytes of the Python string, and \<^verbatim>\<open>LIKE\<close> compares
  characters, not bytes. The three definitions below are the engine's reader of one
  character (\<^verbatim>\<open>sqlite3Utf8Read\<close>), applied along a text: a byte below \<^verbatim>\<open>0xC0\<close> is a
  character by itself; a higher byte opens a character that takes the continuation bytes
  \<^verbatim>\<open>0x80..0xBF\<close> after it, six bits each into a 32-bit value; a value below \<^verbatim>\<open>0x80\<close>, a
  surrogate, \<^verbatim>\<open>U+FFFE\<close> and \<^verbatim>\<open>U+FFFF\<close> are read as \<^verbatim>\<open>U+FFFD\<close>.
\<close>

definition utf8_lead :: "nat \<Rightarrow> nat" where
  "utf8_lead b =
     (if b < 224 then b mod 32 else if b < 240 then b mod 16 else if b < 248 then b mod 8
      else if b < 252 then b mod 4 else if b < 254 then b mod 2 else 0)"

definition utf8_continuation :: "char \<Rightarrow> bool" where
  "utf8_continuation b = (128 \<le> (of_char b :: nat) \<and> (of_char b :: nat) < 192)"

definition utf8_value :: "nat \<Rightarrow> string \<Rightarrow> nat" where
  "utf8_value lead bs =
     (let c = foldl (\<lambda>c b. (c * 64 + of_char b mod 64) mod 2 ^ 32) lead bs
      in if c < 128 \<or> (55296 \<le> c \<and> c \<le> 57343) \<or> c = 65534 \<or> c = 65535 then 65533 else c)"

function utf8_codes :: "string \<Rightarrow> nat list" where
  "utf8_codes [] = []"
| "utf8_codes (b # bs) =
     (if (of_char b :: nat) < 192 then of_char b # utf8_codes bs
      else utf8_value (utf8_lead (of_char b)) (takeWhile utf8_continuation bs)
             # utf8_codes (dropWhile utf8_continuation bs))"
  by pat_completeness auto
termination
  by (relation "measure length") (auto simp: length_dropWhile_le less_Suc_eq_le)

text \<open>The comparison of two characters under \<^verbatim>\<open>LIKE\<close>: ASCII letters without case.\<close>

definition like_fold :: "nat \<Rightarrow> nat" where
  "like_fold c = (if 65 \<le> c \<and> c \<le> 90 then c + 32 else c)"

text \<open>
  The matching of \<^verbatim>\<open>LIKE\<close> on characters: \<^verbatim>\<open>%\<close> (37) matches any run of
  characters, \<^verbatim>\<open>_\<close> (95) one character, any other character itself.
\<close>

fun like_codes :: "nat list \<Rightarrow> nat list \<Rightarrow> bool" where
  "like_codes [] s = (s = [])"
| "like_codes (p # ps) [] = (p = 37 \<and> like_codes ps [])"
| "like_codes (p # ps) (c # cs) =
     (if p = 37 then like_codes ps (c # cs) \<or> like_codes (p # ps) cs
      else (p = c \<or> (p < 128 \<and> c < 128 \<and> like_fold p = like_fold c) \<or> p = 95)
           \<and> like_codes ps cs)"

text \<open>
  SQLite's \<^verbatim>\<open>text LIKE pattern\<close> (no ESCAPE). The engine reads both operands as C
  strings, so each ends at its first zero byte. It refuses a pattern of more than 50000
  bytes with an error; the model is of patterns within that limit.
\<close>

definition sql_like :: "string \<Rightarrow> string \<Rightarrow> bool" where
  "sql_like pattern text_value =
     like_codes (utf8_codes (takeWhile (\<lambda>b. b \<noteq> CHR 0x00) pattern))
       (utf8_codes (takeWhile (\<lambda>b. b \<noteq> CHR 0x00) text_value))"

text \<open>
  A column value. In a WHERE clause built from \<^verbatim>\<open>LIKE\<close>, \<^verbatim>\<open>=\<close>, \<^verbatim>\<open>OR\<close> and
  \<^verbatim>\<open>AND\<close> a NULL result rejects the row as false does, so a comparison with NULL is
  \<open>False\<close> here.
\<close>

datatype sqlval = SNull | SInt int | SText string

fun like_val :: "string \<Rightarrow> sqlval \<Rightarrow> bool" where
  "like_val pat SNull = False"
| "like_val pat (SInt i) = sql_like pat (str_int i)"
| "like_val pat (SText t) = sql_like pat t"

definition opt_text :: "string option \<Rightarrow> sqlval" where
  "opt_text x = (case x of None \<Rightarrow> SNull | Some t \<Rightarrow> SText t)"

text \<open>
  \<^verbatim>\<open>ORDER BY\<close>: NULLs first, then numbers, then texts byte by byte. Rows with equal
  keys come in an order SQL leaves open; here they keep the order of the table
  (reversed for \<^verbatim>\<open>DESC\<close>).
\<close>

fun sql_key :: "sqlval \<Rightarrow> nat \<times> int \<times> string" where
  "sql_key SNull = (0, 0, [])"
| "sql_key (SInt i) = (1, i, [])"
| "sql_key (SText t) = (2, 0, t)"

definition order_rows :: "bool \<Rightarrow> ('a \<Rightarrow> sqlval) \<Rightarrow> 'a list \<Rightarrow> 'a list" where
  "order_rows desc col rows =
     (if desc then rev (sort_key (\<lambda>r. sql_key (col r)) rows)
      else sort_key (\<lambda>r. sql_key (col r)) rows)"

text \<open>
  \<^verbatim>\<open>LIMIT ? OFFSET ?\<close>: SQLite reads a negative LIMIT as no limit and a negative OFFSET
  as zero.
\<close>

definition limit_offset :: "int \<Rightarrow> int \<Rightarrow> 'a list \<Rightarrow> 'a list" where
  "limit_offset limit offset rows =
     (if limit < 0 then drop (nat offset) rows else take (nat limit) (drop (nat offset) rows))"

text \<open>
  \<^verbatim>\<open>order_dir.upper() == "DESC"\<close>. Python's \<^verbatim>\<open>upper\<close> maps to the letters of
  \<^verbatim>\<open>DESC\<close> the ASCII letters and one more character, the long s \<^verbatim>\<open>U+017F\<close> (bytes
  \<^verbatim>\<open>C5 BF\<close>), which becomes \<^verbatim>\<open>S\<close>.
\<close>

fun long_s :: "string \<Rightarrow> string" where
  "long_s (a # b # cs) =
     (if a = CHR 0xC5 \<and> b = CHR 0xBF then CHR ''s'' # long_s cs else a # long_s (b # cs))"
| "long_s cs = cs"

definition is_desc :: "string \<Rightarrow> bool" where
  "is_desc order_dir = (map upper_ascii (long_s order_dir) = ''DESC'')"

subsection \<open>InventoryRepository: filtered listings\<close>

text \<open>The WHERE clause of \<^verbatim>\<open>list_inventory_filtered\<close>: empty when \<^verbatim>\<open>search\<close> is.\<close>

definition search_condition :: "string \<Rightarrow> InventoryItem \<Rightarrow> bool" where
  "search_condition search i =
     (search = [] \<or>
      (let like = ''%'' @ search @ ''%''
       in sql_like like (i_asset_id i) \<or> sql_like like (i_description i)
          \<or> like_val like (opt_text (i_manufacturer i))
          \<or> like_val like (opt_text (i_model i))
          \<or> like_val like (opt_text (i_serial_number i))
          \<or> sql_like like (i_location_id i)))"

text \<open>Its \<^verbatim>\<open>order_col\<close>: one of three columns, \<^verbatim>\<open>description\<close> for any other key.\<close>

definition inventory_order_col :: "string \<Rightarrow> InventoryItem \<Rightarrow> sqlval" where
  "inventory_order_col order_by i =
     (let order_col =
            (if order_by = ''description'' \<or> order_by = ''asset_id'' \<or> order_by = ''location_id''
             then order_by else ''description'')
      in SText (if order_col = ''asset_id'' then i_asset_id i
                else if order_col = ''location_id'' then i_location_id i
                else i_description i))"

definition list_inventory_filtered ::
  "db \<Rightarrow> string \<Rightarrow> int \<Rightarrow> int \<Rightarrow> string \<Rightarrow> string \<Rightarrow> InventoryItem list \<times> nat" where
  "list_inventory_filtered d search limit offset order_by order_dir =
     (let matching = filter (search_condition search) (tbl_Inventory d)
      in (limit_offset limit offset
            (order_rows (is_desc order_dir) (inventory_order_col order_by) matching),
          length matching))"

text \<open>A row of the joined view: the thirteen columns both view queries select.\<close>

record ViewRow =
  w_asset_id :: string
  w_location_id :: string
  w_description :: string
  w_consumable :: int
  w_manufacturer :: "string option"
  w_model :: "string option"
  w_serial_number :: "string option"
  w_vehicle_name :: "string option"
  w_vehicle_type :: "string option"
  w_side :: string
  w_row :: int
  w_bin :: int
  w_last_audited_at :: "string option"

definition view_row :: "InventoryItem \<Rightarrow> Location \<Rightarrow> Vehicle option \<Rightarrow> ViewRow" where
  "view_row i l v =
     \<lparr>w_asset_id = i_asset_id i, w_location_id = i_location_id i,
      w_description = i_description i, w_consumable = i_consumable i,
      w_manufacturer = i_manufacturer i, w_model = i_model i,
      w_serial_number = i_serial_number i,
      w_vehicle_name = map_option v_vehicle_name v,
      w_vehicle_type = map_option v_vehicle_type v,
      w_side = l_side l, w_row = l_row l, w_bin = l_bin l,
      w_last_audited_at = l_last_audited_at l\<rparr>"

text \<open>
  \<^verbatim>\<open>Inventory AS inv JOIN Location AS loc ... LEFT JOIN Vehicle AS veh ...\<close>: an item
  with its location, and with the vehicle of the location or NULLs when there is none.
\<close>

definition inventory_view_join :: "db \<Rightarrow> ViewRow list" where
  "inventory_view_join d =
     concat (map (\<lambda>i.
       concat (map (\<lambda>l.
         if i_location_id i = l_location_id l
         then (case filter (\<lambda>v. l_vehicle_id l = Some (v_vehicle_id v)) (tbl_Vehicle d) of
                 [] \<Rightarrow> [view_row i l None]
               | vs \<Rightarrow> map (\<lambda>v. view_row i l (Some v)) vs)
         else []) (tbl_Location d))) (tbl_Inventory d))"

definition list_inventory_view :: "db \<Rightarrow> ViewRow list" where
  "list_inventory_view d = sort_key w_description (inventory_view_join d)"

text \<open>The dict \<^verbatim>\<open>columns\<close> of \<^verbatim>\<open>list_inventory_view_filtered\<close>.\<close>

definition columns :: "string \<Rightarrow> (ViewRow \<Rightarrow> sqlval) option" where
  "columns key =
     (if key = ''asset_id'' then Some (\<lambda>r. SText (w_asset_id r))
      else if key = ''location_id'' then Some (\<lambda>r. SText (w_location_id r))
      else if key = ''description'' then Some (\<lambda>r. SText (w_description r))
      else if key = ''consumable'' then Some (\<lambda>r. SInt (w_consumable r))
      else if key = ''manufacturer'' then Some (\<lambda>r. opt_text (w_manufacturer r))
      else if key = ''model'' then Some (\<lambda>r. opt_text (w_model r))
      else if key = ''serial_number'' then Some (\<lambda>r. opt_text (w_serial_number r))
      else if key = ''vehicle_name'' then Some (\<lambda>r. opt_text (w_vehicle_name r))
      else if key = ''vehicle_type'' then Some (\<lambda>r. opt_text (w_vehicle_type r))
      else if key = ''side'' then Some (\<lambda>r. SText (w_side r))
      else if key = ''row'' then Some (\<lambda>r. SInt (w_row r))
      else if key = ''bin'' then Some (\<lambda>r. SInt (w_bin r))
      else if key = ''last_audited_at'' then Some (\<lambda>r. opt_text (w_last_audited_at r))
      else None)"

text \<open>A value of the \<^verbatim>\<open>filters\<close> dict: the window passes strings, and ints for row and bin.\<close>

datatype fval = FInt int | FStr string

fun truthy :: "fval \<Rightarrow> bool" where
  "truthy (FInt i) = (i \<noteq> 0)"
| "truthy (FStr t) = (t \<noteq> [])"

fun str_fval :: "fval \<Rightarrow> string" where
  "str_fval (FInt i) = str_int i"
| "str_fval (FStr t) = t"

text \<open>
  \<^verbatim>\<open>col = ?\<close> on an INTEGER column. An int parameter is compared as a number. A text
  parameter takes the column's affinity: the engine converts a text that reads as a number
  (an integer or a real literal, spaces around it allowed, a real rounded to a double) and
  compares the result. That conversion is the engine's and is not modelled: the comparison
  of a text with an integer is the argument \<open>text_eq\<close> of the listing, and what is proved
  of the listing holds for every \<open>text_eq\<close>.
\<close>

fun int_column_eq :: "(string \<Rightarrow> int \<Rightarrow> bool) \<Rightarrow> sqlval \<Rightarrow> fval \<Rightarrow> bool" where
  "int_column_eq text_eq (SInt n) (FInt i) = (n = i)"
| "int_column_eq text_eq (SInt n) (FStr t) = text_eq t n"
| "int_column_eq text_eq v p = False"

text \<open>
  One pass of the loop over \<^verbatim>\<open>filters.items()\<close>: the condition an entry adds.
  \<^verbatim>\<open>str(value).lower() == "yes"\<close> holds of the ASCII spellings of yes only.
\<close>

definition filter_condition ::
  "(string \<Rightarrow> int \<Rightarrow> bool) \<Rightarrow> string \<times> fval \<Rightarrow> ViewRow \<Rightarrow> bool" where
  "filter_condition text_eq kv r =
     (case kv of (key, v) \<Rightarrow>
        if \<not> truthy v then True
        else (case columns key of
                None \<Rightarrow> True
              | Some col \<Rightarrow>
                  if key = ''row'' \<or> key = ''bin'' then int_column_eq text_eq (col r) v
                  else if key = ''consumable''
                    then col r = SInt (if map lower_ascii (str_fval v) = ''yes'' then 1 else 0)
                  else like_val (''%'' @ str_fval v @ ''%'') (col r)))"

text \<open>
  \<^verbatim>\<open>filters.pop("global", None) or filters.pop("__global__", None)\<close>: the second pop
  happens only when the first gave nothing truthy. The dict is a list of pairs in
  insertion order.
\<close>

definition pop_global :: "(string \<times> fval) list \<Rightarrow> fval option \<times> (string \<times> fval) list" where
  "pop_global filters =
     (let g = map_of filters ''global'';
          filters1 = filter (\<lambda>kv. fst kv \<noteq> ''global'') filters
      in if (case g of None \<Rightarrow> False | Some v \<Rightarrow> truthy v) then (g, filters1)
         else (map_of filters1 ''__global__'',
               filter (\<lambda>kv. fst kv \<noteq> ''__global__'') filters1))"

definition global_condition :: "fval option \<Rightarrow> ViewRow \<Rightarrow> bool" where
  "global_condition global_term r =
     (case global_term of
        None \<Rightarrow> True
      | Some v \<Rightarrow>
          if \<not> truthy v then True
          else (let like_value = ''%'' @ str_fval v @ ''%'' in
                sql_like like_value (w_asset_id r) \<or> sql_like like_value (w_location_id r)
                \<or> sql_like like_value (w_description r)
                \<or> like_val like_value (opt_text (w_manufacturer r))
                \<or> like_val like_value (opt_text (w_model r))
                \<or> like_val like_value (opt_text (w_serial_number r))
                \<or> like_val like_value (opt_text (w_vehicle_name r))
                \<or> like_val like_value (opt_text (w_vehicle_type r))
                \<or> sql_like like_value (w_side r)))"

text \<open>
  The WHERE clause of \<^verbatim>\<open>list_inventory_view_filtered\<close>: the global condition and the
  conditions of the remaining entries, joined by \<^verbatim>\<open>AND\<close>.
\<close>

definition view_condition ::
  "(string \<Rightarrow> int \<Rightarrow> bool) \<Rightarrow> (string \<times> fval) list \<Rightarrow> ViewRow \<Rightarrow> bool" where
  "view_condition text_eq filters r =
     (case pop_global filters of (global_term, rest) \<Rightarrow>
        global_condition global_term r \<and> list_all (\<lambda>kv. filter_condition text_eq kv r) rest)"

text \<open>\<^verbatim>\<open>columns.get(order_by, "inv.description")\<close>.\<close>

definition view_order_col :: "string \<Rightarrow> ViewRow \<Rightarrow> sqlval" where
  "view_order_col order_by =
     (case columns order_by of None \<Rightarrow> (\<lambda>r. SText (w_description r)) | Some col \<Rightarrow> col)"

definition list_inventory_view_filtered ::
  "(string \<Rightarrow> int \<Rightarrow> bool) \<Rightarrow> db \<Rightarrow> (string \<times> fval) list \<Rightarrow> string \<Rightarrow> string \<Rightarrow> int \<Rightarrow> int
     \<Rightarrow> ViewRow list \<times> nat" where
  "list_inventory_view_filtered text_eq d filters order_by order_dir limit offset =
     (let matching = filter (view_condition text_eq filters) (inventory_view_join d)
      in (limit_offset limit offset
            (order_rows (is_desc order_dir) (view_order_col order_by) matching),
          length matching))"

subsection \<open>Pruning backups\<close>

text \<open>
  \<^verbatim>\<open>backup_database\<close> names a backup after the time it is made,
  \<^verbatim>\<open>f"inventory_{timestamp}.db"\<close> with \<^verbatim>\<open>strftime("%Y%m%d_%H%M%S")\<close>.
\<close>

definition backup_name :: "string \<Rightarrow> string" where
  "backup_name timestamp = ''inventory_'' @ timestamp @ ''.db''"

text \<open>The pattern \<^verbatim>\<open>inventory_*.db\<close> of \<^verbatim>\<open>backup_dir.glob\<close>.\<close>

definition glob_match :: "string \<Rightarrow> bool" where
  "glob_match name =
     (13 \<le> length name \<and> take 10 name = ''inventory_'' \<and> drop (length name - 3) name = ''.db'')"

text \<open>
  The loop of \<^verbatim>\<open>prune_backups\<close>. The directory is the list of its file names;
  \<open>can_unlink\<close> tells for which files \<^verbatim>\<open>path.unlink()\<close> succeeds (for the others it
  raises \<^verbatim>\<open>OSError\<close>, which the loop logs and passes over). The state is the list
  \<^verbatim>\<open>removed\<close> and the directory.
\<close>

fun unlink_loop ::
  "(string \<Rightarrow> bool) \<Rightarrow> string list \<Rightarrow> string list \<times> string list \<Rightarrow> string list \<times> string list" where
  "unlink_loop can_unlink [] (removed, files) = (removed, files)"
| "unlink_loop can_unlink (path # paths) (removed, files) =
     (if can_unlink path
      then unlink_loop can_unlink paths (removed @ [path], filter (\<lambda>f. f \<noteq> path) files)
      else unlink_loop can_unlink paths (removed, files))"

text \<open>
  \<^verbatim>\<open>prune_backups\<close>: \<^verbatim>\<open>sorted(...)\<close> orders the paths of one directory by name;
  \<^verbatim>\<open>backups[:-max_backups]\<close>, reached only with
  \<^verbatim>\<open>0 < max_backups < len(backups)\<close>, is the list without its last
  \<^verbatim>\<open>max_backups\<close> elements. The result is \<^verbatim>\<open>removed\<close> and the directory afterwards.
\<close>

definition prune_backups ::
  "(string \<Rightarrow> bool) \<Rightarrow> string list \<Rightarrow> int \<Rightarrow> string list \<times> string list" where
  "prune_backups can_unlink files max_backups =
     (let backups = sort (filter glob_match files)
      in if max_backups \<le> 0 \<or> int (length backups) \<le> max_backups then ([], files)
         else unlink_loop can_unlink (take (length backups - nat max_backups) backups)
                ([], files))"

subsection \<open>Sequences of calls\<close>

text \<open>
  A session on the store: calls of the allocator, interleaved with the statements the
  repositories execute, each followed by its commit (a \<^verbatim>\<open>create_*\<close> is an allocator
  call followed by an insert).
\<close>

datatype call =
    Allocate
  | Insert_vehicle Vehicle
  | Insert_location Location
  | Insert_inventory InventoryItem
  | Update_vehicle string "string option" "string option" "string option" "int option"
      "int option" "int option" string
  | Update_location string "string option" "int option" "int option" "string option"
      "string option" string
  | Update_inventory string "string option" "string option" "int option" "string option"
      "string option" "string option" string
  | Insert_audit string "string option" "string option" string "string option" string
      "string option"
  | Delete_vehicle string
  | Delete_location string
  | Delete_inventory string

fun statement :: "call \<Rightarrow> db \<Rightarrow> error + db" where
  "statement Allocate = Inr"
| "statement (Insert_vehicle v) = insert_Vehicle v"
| "statement (Insert_location l) = insert_Location l"
| "statement (Insert_inventory i) = insert_Inventory i"
| "statement (Update_vehicle k vehicle_type vehicle_name vin vehicle_number mileage last_service
      now) =
     update_Vehicle k vehicle_type vehicle_name vin vehicle_number mileage last_service now"
| "statement (Update_location k side row bin vehicle_id last_audited_at now) =
     update_Location k side row bin vehicle_id last_audited_at now"
| "statement (Update_inventory k description location_id consumable_value manufacturer model
      serial_number now) =
     update_Inventory k description location_id consumable_value manufacturer model
       serial_number now"
| "statement (Insert_audit asset_id from_location_id to_location_id action notes timestamp
      user) =
     (\<lambda>d. case insert_InventoryAudit asset_id from_location_id to_location_id action notes
                 timestamp user d of
            Inl e \<Rightarrow> Inl e
          | Inr (audit_id, d') \<Rightarrow> Inr d')"
| "statement (Delete_vehicle k) = delete_Vehicle k"
| "statement (Delete_location k) = delete_Location k"
| "statement (Delete_inventory k) = delete_Inventory k"

text \<open>
  \<open>run\<close> performs the calls in order and collects the identifiers the allocator
  returns. It is \<open>None\<close> when an allocator call has not returned with the draws given.
\<close>

fun run :: "call list \<Rightarrow> nat list \<Rightarrow> db \<Rightarrow> (string list \<times> db) option" where
  "run [] draws d = Some ([], d)"
| "run (c # cs) draws d =
     (if c = Allocate
      then (case generate_global_id draws d of
              None \<Rightarrow> None
            | Some (id_str, draws', d') \<Rightarrow>
                (case run cs draws' d' of
                   None \<Rightarrow> None
                 | Some (ids, d'') \<Rightarrow> Some (id_str # ids, d'')))
      else run cs draws (snd (execute_commit (statement c) d)))"

subsection \<open>Example values\<close>

definition demo_vehicle :: Vehicle where
  "demo_vehicle = \<lparr>v_vehicle_id = ''00000005'', v_vehicle_type = ''Truck'',
     v_vehicle_name = ''T1'', v_vin = ''VIN1'', v_vehicle_number = 1, v_mileage = 0,
     v_last_service = 0, v_created_at = ''2024-01-01T00:00:00'',
     v_updated_at = ''2024-01-01T00:00:00''\<rparr>"

definition demo_location :: Location where
  "demo_location = \<lparr>l_location_id = ''00000002'', l_vehicle_id = Some ''00000005'',
     l_side = ''Left'', l_row = 1, l_bin = 1, l_created_at = ''2024-01-01T00:00:00'',
     l_updated_at = ''2024-01-01T00:00:00'', l_last_audited_at = None\<rparr>"

definition demo_item :: InventoryItem where
  "demo_item = \<lparr>i_asset_id = ''00000003'', i_description = ''Oil filter'',
     i_location_id = ''00000002'', i_consumable = 1, i_manufacturer = Some ''Acme'',
     i_model = None, i_serial_number = None, i_created_at = ''2024-01-01T00:00:00'',
     i_updated_at = ''2024-01-01T00:00:00''\<rparr>"

text \<open>A store with one vehicle, one location on it and one item in that location.\<close>

definition demo_db :: db where
  "demo_db = \<lparr>tbl_GlobalId = [''00000005'', ''00000002'', ''00000003''],
     tbl_Vehicle = [demo_vehicle], tbl_Location = [demo_location],
     tbl_Inventory = [demo_item], tbl_InventoryAudit = [], seq_InventoryAudit = 0\<rparr>"

text \<open>Rows with empty required fields, and the store after one more allocation.\<close>

definition blank_vehicle :: Vehicle where
  "blank_vehicle = \<lparr>v_vehicle_id = ''00000009'', v_vehicle_type = ''Truck'',
     v_vehicle_name = [], v_vin = [], v_vehicle_number = 1, v_mileage = 0,
     v_last_service = 0, v_created_at = ''2024-02-02T10:00:00'',
     v_updated_at = ''2024-02-02T10:00:00''\<rparr>"

definition blank_location :: Location where
  "blank_location = \<lparr>l_location_id = ''00000009'', l_vehicle_id = None, l_side = [],
     l_row = 1, l_bin = 1, l_created_at = ''2024-02-02T10:00:00'',
     l_updated_at = ''2024-02-02T10:00:00'', l_last_audited_at = None\<rparr>"

definition blank_item :: InventoryItem where
  "blank_item = \<lparr>i_asset_id = ''00000009'', i_description = [],
     i_location_id = ''00000002'', i_consumable = 0, i_manufacturer = None,
     i_model = None, i_serial_number = None, i_created_at = ''2024-02-02T10:00:00'',
     i_updated_at = ''2024-02-02T10:00:00''\<rparr>"

definition demo_db_9 :: db where
  "demo_db_9 = demo_db\<lparr>tbl_GlobalId := tbl_GlobalId demo_db @ [''00000009'']\<rparr>"

definition other_vehicle :: Vehicle where
  "other_vehicle = \<lparr>v_vehicle_id = ''00000006'', v_vehicle_type = ''Trailer'',
     v_vehicle_name = ''R2'', v_vin = ''VIN2'', v_vehicle_number = 2, v_mileage = 10,
     v_last_service = 5, v_created_at = ''2024-01-05T00:00:00'',
     v_updated_at = ''2024-01-05T00:00:00''\<rparr>"

definition fleet_db :: db where
  "fleet_db = demo_db\<lparr>tbl_Vehicle := [demo_vehicle, other_vehicle]\<rparr>"

text \<open>
  A backup directory: five earlier backups, the backup just made
  (\<^verbatim>\<open>inventory_20240102_000000.db\<close>) and a file that is no backup, in directory order.
\<close>

definition backup_dir :: "string list" where
  "backup_dir = [''inventory_20240101_000003.db'', ''inventory_20240102_000000.db'',
     ''notes.txt'', ''inventory_20240101_000001.db'', ''inventory_20240101_000005.db'',
     ''inventory_20240101_000002.db'', ''inventory_20240101_000004.db'']"

text \<open>A store with a second item, which a search for oil does not match.\<close>

definition wrench_item :: InventoryItem where
  "wrench_item = \<lparr>i_asset_id = ''00000004'', i_description = ''Wrench'',
     i_location_id = ''00000002'', i_consumable = 0, i_manufacturer = None,
     i_model = None, i_serial_number = None, i_created_at = ''2024-01-02T00:00:00'',
     i_updated_at = ''2024-01-02T00:00:00''\<rparr>"

definition stock_db :: db where
  "stock_db = demo_db\<lparr>tbl_GlobalId := tbl_GlobalId demo_db @ [''00000004''],
     tbl_Inventory := [wrench_item, demo_item]\<rparr>"

section \<open>Properties\<close>

subsection \<open>The identifier allocator\<close>

lemma digit_char_is_digit: "d < 10 \<Longrightarrow> is_digit (digit_char d)"
  unfolding is_digit_def digit_char_def by (rule nth_mem) simp

lemma digits10_all_digits: "list_all is_digit (digits10 n)"
proof (induction n rule: digits10.induct)
  case (1 n)
  show ?case
  proof (cases "n < 10")
    case True
    then show ?thesis by (subst digits10.simps) (simp add: digit_char_is_digit)
  next
    case False
    with 1 show ?thesis by (subst digits10.simps) (simp add: digit_char_is_digit)
  qed
qed

lemma digits10_length: "0 < k \<Longrightarrow> n < 10 ^ k \<Longrightarrow> length (digits10 n) \<le> k"
proof (induction n arbitrary: k rule: digits10.induct)
  case (1 n)
  show ?case
  proof (cases "n < 10")
    case True
    with 1 show ?thesis by (subst digits10.simps) simp
  next
    case False
    from False 1(3) have "k \<noteq> 1" by auto
    with 1(2) have k1: "1 < k" by arith
    then obtain j where j: "k = Suc j" "0 < j" by (cases k) auto
    from 1(3) j have "n div 10 < 10 ^ j" by (simp add: less_mult_imp_div_less mult.commute)
    with 1(1)[OF False j(2)] have "length (digits10 (n div 10)) \<le> j" by simp
    with False j show ?thesis by (subst digits10.simps) simp
  qed
qed

lemma fmt08d_length: "randint_range r \<Longrightarrow> length (fmt08d r) = 8"
proof -
  assume "randint_range r"
  then have "r < 10 ^ 8" by (simp add: randint_range_def)
  then have "length (digits10 r) \<le> 8" by (intro digits10_length) simp_all
  then show ?thesis by (simp add: fmt08d_def)
qed

lemma fmt08d_digits: "list_all is_digit (fmt08d r)"
proof -
  have "is_digit (CHR ''0'')" by (simp add: is_digit_def)
  then have "list_all is_digit (replicate k (CHR ''0''))" for k by (induction k) simp_all
  then show ?thesis by (simp add: fmt08d_def digits10_all_digits)
qed

lemma fmt08d_examples: "fmt08d 5 = ''00000005''" "fmt08d 7 = ''00000007''"
  by code_simp+

lemma generate_global_id_Some:
  "generate_global_id rs d = Some (i, rs', d') \<Longrightarrow>
     i \<notin> set (tbl_GlobalId d) \<and> d' = d\<lparr>tbl_GlobalId := tbl_GlobalId d @ [i]\<rparr>
     \<and> (\<exists>r \<in> set rs. i = fmt08d r) \<and> set rs' \<subseteq> set rs"
proof (induction rs)
  case Nil
  then show ?case by simp
next
  case (Cons r rs)
  then show ?case
    by (auto simp: insert_GlobalId_def split: if_splits)
qed

text \<open>The loop returns as soon as a draw is an identifier not yet recorded.\<close>

lemma generate_global_id_returns:
  "\<exists>r \<in> set rs. fmt08d r \<notin> set (tbl_GlobalId d) \<Longrightarrow> generate_global_id rs d \<noteq> None"
  by (induction rs) (auto simp: insert_GlobalId_def)

lemma update_Location_rows:
  "update_Location lid side row bin vid laa now d = Inr d' \<Longrightarrow>
     d' = d\<lparr>tbl_Location := map (\<lambda>l. if l_location_id l = lid
                                      then set_Location side row bin vid laa now l else l)
                               (tbl_Location d)\<rparr>"
  by (simp add: update_Location_def Let_def split: if_splits)

lemma statement_GlobalId:
  assumes "statement c d = Inr d'"
  shows "tbl_GlobalId d' = tbl_GlobalId d"
proof (cases c)
  case (Update_location k side row bin vehicle_id last_audited_at now)
  with assms have "update_Location k side row bin vehicle_id last_audited_at now d = Inr d'"
    by simp
  from update_Location_rows[OF this] show ?thesis by simp
qed (insert assms,
     auto simp: insert_Vehicle_def insert_Location_def insert_Inventory_def delete_Vehicle_def
       delete_Location_def delete_Inventory_def update_Vehicle_def update_Inventory_def
       insert_InventoryAudit_def split: if_splits sum.splits)

lemma execute_commit_GlobalId:
  "tbl_GlobalId (snd (execute_commit (statement c) d)) = tbl_GlobalId d"
  by (auto simp: execute_commit_def statement_GlobalId split: sum.splits)

lemma run_example:
  "run [Allocate, Insert_vehicle demo_vehicle, Delete_vehicle ''00000005'', Allocate] [5, 5, 7]
       empty_db
     = Some ([''00000005'', ''00000007''],
             empty_db\<lparr>tbl_GlobalId := [''00000005'', ''00000007'']\<rparr>)"
  by (simp add: fmt08d_examples insert_GlobalId_def empty_db_def execute_commit_def
        insert_Vehicle_def demo_vehicle_def vehicle_type_check_def delete_Vehicle_def)

text \<open>
  C1. In every sequence of allocator calls, interleaved with inserts and deletes of
  entities, over draws in the range of \<^verbatim>\<open>random.randint(1, 99999999)\<close>: the identifiers
  returned are pairwise distinct; each is a string of 8 decimal digits, was not recorded
  in GlobalId before the sequence and is recorded there after it; and GlobalId never loses
  an identifier, so deleting the entity that owns an identifier does not free it.
\<close>

theorem allocator_ids:
  assumes "run cs draws d = Some (ids, d')" and "\<forall>r \<in> set draws. randint_range r"
  shows "distinct ids
     \<and> (\<forall>i \<in> set ids. length i = 8 \<and> list_all is_digit i
            \<and> i \<notin> set (tbl_GlobalId d) \<and> i \<in> set (tbl_GlobalId d'))
     \<and> set (tbl_GlobalId d) \<subseteq> set (tbl_GlobalId d')"
  using assms
proof (induction cs arbitrary: draws d ids d')
  case Nil
  then show ?case by simp
next
  case (Cons c cs)
  show ?case
  proof (cases "c = Allocate")
    case True
    with Cons.prems(1) obtain i rs' d1 rest where
      g: "generate_global_id draws d = Some (i, rs', d1)" and
      r: "run cs rs' d1 = Some (rest, d')" and ids: "ids = i # rest"
      by (auto split: option.splits)
    from generate_global_id_Some[OF g] have
      fresh: "i \<notin> set (tbl_GlobalId d)" and d1: "tbl_GlobalId d1 = tbl_GlobalId d @ [i]"
      and ex: "\<exists>r \<in> set draws. i = fmt08d r" and sub: "set rs' \<subseteq> set draws"
      by auto
    from sub Cons.prems(2) have "\<forall>r \<in> set rs'. randint_range r" by blast
    from Cons.IH[OF r this] have ih: "distinct rest"
      "\<forall>j \<in> set rest. length j = 8 \<and> list_all is_digit j
            \<and> j \<notin> set (tbl_GlobalId d1) \<and> j \<in> set (tbl_GlobalId d')"
      "set (tbl_GlobalId d1) \<subseteq> set (tbl_GlobalId d')" by auto
    from ex Cons.prems(2) have "length i = 8" "list_all is_digit i"
      by (auto simp: fmt08d_length fmt08d_digits)
    with ih fresh d1 ids show ?thesis by auto
  next
    case False
    with Cons.prems(1)
    have r: "run cs draws (snd (execute_commit (statement c) d)) = Some (ids, d')"
      by simp
    from Cons.IH[OF r Cons.prems(2)] show ?thesis
      by (simp add: execute_commit_GlobalId)
  qed
qed

theorem allocator_ids_witness:
  "run [Allocate, Insert_vehicle demo_vehicle, Delete_vehicle ''00000005'', Allocate] [5, 5, 7]
       empty_db
     = Some ([''00000005'', ''00000007''],
             empty_db\<lparr>tbl_GlobalId := [''00000005'', ''00000007'']\<rparr>)
   \<and> list_all randint_range [5, 5, 7]
   \<and> distinct [''00000005'', ''00000007'']
   \<and> list_all (\<lambda>i. length i = 8 \<and> list_all is_digit i \<and> i \<notin> set (tbl_GlobalId empty_db)
          \<and> i \<in> set (tbl_GlobalId (empty_db\<lparr>tbl_GlobalId := [''00000005'', ''00000007'']\<rparr>)))
        [''00000005'', ''00000007'']"
proof -
  have h: "\<forall>r \<in> set [5, 5, 7 :: nat]. randint_range r" by (simp add: randint_range_def)
  from allocator_ids[OF run_example h] run_example h show ?thesis
    unfolding list_all_iff by blast
qed

subsection \<open>Deleting locations and vehicles\<close>

lemma demo_db_rows:
  "demo_vehicle \<in> set (tbl_Vehicle demo_db)" "demo_location \<in> set (tbl_Location demo_db)"
  "demo_item \<in> set (tbl_Inventory demo_db)"
  "i_location_id demo_item = l_location_id demo_location"
  "l_vehicle_id demo_location = Some (v_vehicle_id demo_vehicle)"
  "l_location_id demo_location = ''00000002''" "v_vehicle_id demo_vehicle = ''00000005''"
  "i_asset_id demo_item = ''00000003''"
  "distinct (map l_location_id (tbl_Location demo_db))"
  "distinct (map v_vehicle_id (tbl_Vehicle demo_db))"
  by (simp_all add: demo_db_def demo_item_def demo_location_def demo_vehicle_def)

text \<open>
  C2. Deleting a location that an inventory item references raises
  \<^verbatim>\<open>sqlite3.IntegrityError\<close> (the violated rule is the foreign key of Inventory, ON
  DELETE RESTRICT), and the store afterwards is the store before: the location row and
  its items are unchanged.
\<close>

theorem delete_location_restrict:
  assumes "l \<in> set (tbl_Location d)" and "i \<in> set (tbl_Inventory d)"
    and "i_location_id i = l_location_id l"
  shows "delete_location (l_location_id l) d = (Inl (IntegrityError ForeignKey), d)"
  using assms by (auto simp: delete_location_def execute_commit_def delete_Location_def)

theorem delete_location_restrict_witness:
  "demo_location \<in> set (tbl_Location demo_db) \<and> demo_item \<in> set (tbl_Inventory demo_db)
   \<and> i_location_id demo_item = l_location_id demo_location
   \<and> delete_location ''00000002'' demo_db = (Inl (IntegrityError ForeignKey), demo_db)"
  using delete_location_restrict[OF demo_db_rows(2) demo_db_rows(3) demo_db_rows(4)]
  by (simp add: demo_db_rows)

lemma find_map_key:
  "(\<And>x. key (g x) = key x) \<Longrightarrow>
     find (\<lambda>y. key y = k) (map g xs) = map_option g (find (\<lambda>y. key y = k) xs)"
  by (induction xs) auto

lemma find_distinct_key:
  "distinct (map key xs) \<Longrightarrow> x \<in> set xs \<Longrightarrow> find (\<lambda>y. key y = key x) xs = Some x"
  by (induction xs) (auto simp: image_iff)

text \<open>
  C3. Let \<open>v\<close> be a vehicle of the store and \<open>l\<close> a location whose \<^verbatim>\<open>vehicle_id\<close>
  references it (\<^verbatim>\<open>location_id\<close> being the primary key of Location). Then
  \<^verbatim>\<open>delete_vehicle\<close> succeeds, and afterwards \<^verbatim>\<open>get_location\<close> returns \<open>l\<close> with
  \<^verbatim>\<open>vehicle_id\<close> NULL and every other field as before, \<^verbatim>\<open>list_locations()\<close> lists
  that row, and no location row has been deleted.
\<close>

theorem delete_vehicle_set_null:
  assumes "v \<in> set (tbl_Vehicle d)" and "l \<in> set (tbl_Location d)"
    and "l_vehicle_id l = Some (v_vehicle_id v)"
    and "distinct (map l_location_id (tbl_Location d))"
  shows "fst (delete_vehicle (v_vehicle_id v) d) = Inr ()
     \<and> get_location (snd (delete_vehicle (v_vehicle_id v) d)) (l_location_id l)
         = Some (l\<lparr>l_vehicle_id := None\<rparr>)
     \<and> l\<lparr>l_vehicle_id := None\<rparr>
         \<in> set (list_locations (snd (delete_vehicle (v_vehicle_id v) d)) None)
     \<and> length (tbl_Location (snd (delete_vehicle (v_vehicle_id v) d)))
         = length (tbl_Location d)"
proof -
  let ?g = "\<lambda>l. if l_vehicle_id l = Some (v_vehicle_id v) then l\<lparr>l_vehicle_id := None\<rparr> else l"
  let ?d' = "d\<lparr>tbl_Vehicle := filter (\<lambda>u. v_vehicle_id u \<noteq> v_vehicle_id v) (tbl_Vehicle d),
               tbl_Location := map ?g (tbl_Location d)\<rparr>"
  from assms(1) have r: "delete_vehicle (v_vehicle_id v) d = (Inr (), ?d')"
    by (auto simp: delete_vehicle_def execute_commit_def delete_Vehicle_def)
  have "find (\<lambda>y. l_location_id y = l_location_id l) (map ?g (tbl_Location d))
          = map_option ?g (find (\<lambda>y. l_location_id y = l_location_id l) (tbl_Location d))"
    by (rule find_map_key) simp
  also have "\<dots> = Some (?g l)"
    using find_distinct_key[OF assms(4) assms(2)] by simp
  finally have g: "get_location ?d' (l_location_id l) = Some (l\<lparr>l_vehicle_id := None\<rparr>)"
    using assms(3) by (simp add: get_location_def)
  have "?g l \<in> set (map ?g (tbl_Location d))" using assms(2) by (simp only: set_map) blast
  with assms(3) have m: "l\<lparr>l_vehicle_id := None\<rparr> \<in> set (list_locations ?d' None)"
    by (simp add: list_locations_def)
  from r g m show ?thesis by simp
qed

theorem delete_vehicle_set_null_witness:
  "demo_vehicle \<in> set (tbl_Vehicle demo_db) \<and> demo_location \<in> set (tbl_Location demo_db)
   \<and> l_vehicle_id demo_location = Some (v_vehicle_id demo_vehicle)
   \<and> distinct (map l_location_id (tbl_Location demo_db))
   \<and> fst (delete_vehicle ''00000005'' demo_db) = Inr ()
   \<and> get_location (snd (delete_vehicle ''00000005'' demo_db)) ''00000002''
       = Some (demo_location\<lparr>l_vehicle_id := None\<rparr>)
   \<and> demo_location\<lparr>l_vehicle_id := None\<rparr>
       \<in> set (list_locations (snd (delete_vehicle ''00000005'' demo_db)) None)"
  using delete_vehicle_set_null[OF demo_db_rows(1) demo_db_rows(2) demo_db_rows(5)
      demo_db_rows(9)]
  by (simp add: demo_db_rows)

subsection \<open>Creating entities\<close>

lemma fmt08d_9: "fmt08d 9 = ''00000009''"
  by code_simp

lemma generate_global_id_demo:
  "generate_global_id [9] demo_db = Some (''00000009'', [], demo_db_9)"
  by (simp add: fmt08d_9 insert_GlobalId_def demo_db_def demo_db_9_def)

text \<open>
  C4, as claimed, fails: \<^verbatim>\<open>create_vehicle\<close> with an empty name and an empty VIN
  returns the vehicle and writes its row; so do \<^verbatim>\<open>create_location\<close> with an empty side
  and \<^verbatim>\<open>create_inventory\<close> with an empty description.
\<close>

theorem create_empty_fields_counterexample:
  "create_vehicle ''2024-02-02T10:00:00'' [9] ''Truck'' [] [] 1 0 0 demo_db
     = Some (Inr blank_vehicle, [],
             demo_db_9\<lparr>tbl_Vehicle := tbl_Vehicle demo_db @ [blank_vehicle]\<rparr>)
   \<and> v_vehicle_name blank_vehicle = [] \<and> v_vin blank_vehicle = []
   \<and> create_location ''2024-02-02T10:00:00'' [9] [] 1 1 None demo_db
     = Some (Inr blank_location, [],
             demo_db_9\<lparr>tbl_Location := tbl_Location demo_db @ [blank_location]\<rparr>)
   \<and> l_side blank_location = []
   \<and> create_inventory ''2024-02-02T10:00:00'' [9] [] ''00000002'' False None None None demo_db
     = Some (Inr blank_item, [],
             demo_db_9\<lparr>tbl_Inventory := tbl_Inventory demo_db @ [blank_item]\<rparr>)
   \<and> i_description blank_item = []"
  by (simp only: create_vehicle_def create_location_def create_inventory_def
        generate_global_id_demo)
     (simp add: Let_def insert_Vehicle_def insert_Location_def
        insert_Inventory_def vehicle_type_check_def fk_vehicle_def fk_location_def
        uq_location_vehicle_side_row_bin_def blank_vehicle_def blank_location_def
        blank_item_def demo_db_9_def demo_db_def demo_vehicle_def demo_location_def
        demo_item_def)

text \<open>
  C4, amended. The create operations validate nothing. Once the allocator has returned the
  identifier \<open>k\<close>, whatever the required fields hold (the empty string included):
  \<^verbatim>\<open>create_vehicle\<close> writes and returns the row when the type is Truck or Trailer;
  \<^verbatim>\<open>create_location\<close> when the vehicle reference is NULL or exists and no row has the
  same vehicle, side, row and bin; \<^verbatim>\<open>create_inventory\<close> when the location exists (\<open>k\<close>
  not being a key of the table yet). When a create raises an error, no entity row has been
  written: the store is the one the allocator left, with \<open>k\<close> recorded in GlobalId.
\<close>

theorem create_without_validation:
  assumes "generate_global_id draws d = Some (k, draws', d1)"
  shows "d1 = d\<lparr>tbl_GlobalId := tbl_GlobalId d @ [k]\<rparr>
   \<and> (vehicle_type_check vehicle_type \<and> k \<notin> set (map v_vehicle_id (tbl_Vehicle d)) \<longrightarrow>
       create_vehicle now draws vehicle_type vehicle_name vin vehicle_number mileage last_service d
         = Some (Inr \<lparr>v_vehicle_id = k, v_vehicle_type = vehicle_type,
                      v_vehicle_name = vehicle_name, v_vin = vin,
                      v_vehicle_number = vehicle_number, v_mileage = mileage,
                      v_last_service = last_service, v_created_at = now, v_updated_at = now\<rparr>,
                 draws',
                 d1\<lparr>tbl_Vehicle := tbl_Vehicle d @
                      [\<lparr>v_vehicle_id = k, v_vehicle_type = vehicle_type,
                      v_vehicle_name = vehicle_name, v_vin = vin,
                      v_vehicle_number = vehicle_number, v_mileage = mileage,
                      v_last_service = last_service, v_created_at = now, v_updated_at = now\<rparr>]\<rparr>))
   \<and> (fk_vehicle d vehicle_id \<and> k \<notin> set (map l_location_id (tbl_Location d))
        \<and> \<not> (\<exists>r \<in> set (tbl_Location d). vehicle_id \<noteq> None \<and> l_vehicle_id r = vehicle_id
                 \<and> l_side r = side \<and> l_row r = row \<and> l_bin r = bin) \<longrightarrow>
       create_location now draws side row bin vehicle_id d
         = Some (Inr \<lparr>l_location_id = k, l_vehicle_id = vehicle_id, l_side = side,
                      l_row = row, l_bin = bin, l_created_at = now, l_updated_at = now,
                      l_last_audited_at = None\<rparr>,
                 draws',
                 d1\<lparr>tbl_Location := tbl_Location d @
                      [\<lparr>l_location_id = k, l_vehicle_id = vehicle_id, l_side = side,
                      l_row = row, l_bin = bin, l_created_at = now, l_updated_at = now,
                      l_last_audited_at = None\<rparr>]\<rparr>))
   \<and> (fk_location d (Some location_id) \<and> k \<notin> set (map i_asset_id (tbl_Inventory d)) \<longrightarrow>
       create_inventory now draws description location_id consumable manufacturer model
           serial_number d
         = Some (Inr \<lparr>i_asset_id = k, i_description = description,
                     i_location_id = location_id,
                     i_consumable = (if consumable then 1 else 0),
                     i_manufacturer = manufacturer, i_model = model,
                     i_serial_number = serial_number, i_created_at = now, i_updated_at = now\<rparr>,
                 draws',
                 d1\<lparr>tbl_Inventory := tbl_Inventory d @
                      [\<lparr>i_asset_id = k, i_description = description,
                     i_location_id = location_id,
                     i_consumable = (if consumable then 1 else 0),
                     i_manufacturer = manufacturer, i_model = model,
                     i_serial_number = serial_number, i_created_at = now, i_updated_at = now\<rparr>]\<rparr>))
   \<and> (\<forall>e rs d'.
        create_vehicle now draws vehicle_type vehicle_name vin vehicle_number mileage last_service d
          = Some (Inl e, rs, d')
        \<or> create_location now draws side row bin vehicle_id d = Some (Inl e, rs, d')
        \<or> create_inventory now draws description location_id consumable manufacturer model
             serial_number d = Some (Inl e, rs, d')
        \<longrightarrow> d' = d1)"
proof -
  from generate_global_id_Some[OF assms]
  have d1: "d1 = d\<lparr>tbl_GlobalId := tbl_GlobalId d @ [k]\<rparr>" by simp
  have v: "vehicle_type_check vehicle_type \<and> k \<notin> set (map v_vehicle_id (tbl_Vehicle d)) \<longrightarrow>
       create_vehicle now draws vehicle_type vehicle_name vin vehicle_number mileage last_service d
         = Some (Inr \<lparr>v_vehicle_id = k, v_vehicle_type = vehicle_type,
                      v_vehicle_name = vehicle_name, v_vin = vin,
                      v_vehicle_number = vehicle_number, v_mileage = mileage,
                      v_last_service = last_service, v_created_at = now, v_updated_at = now\<rparr>,
                 draws',
                 d1\<lparr>tbl_Vehicle := tbl_Vehicle d @
                      [\<lparr>v_vehicle_id = k, v_vehicle_type = vehicle_type,
                      v_vehicle_name = vehicle_name, v_vin = vin,
                      v_vehicle_number = vehicle_number, v_mileage = mileage,
                      v_last_service = last_service, v_created_at = now, v_updated_at = now\<rparr>]\<rparr>)"
    using assms by (simp add: create_vehicle_def insert_Vehicle_def d1 Let_def)
  have l: "fk_vehicle d vehicle_id \<and> k \<notin> set (map l_location_id (tbl_Location d))
        \<and> \<not> (\<exists>r \<in> set (tbl_Location d). vehicle_id \<noteq> None \<and> l_vehicle_id r = vehicle_id
                 \<and> l_side r = side \<and> l_row r = row \<and> l_bin r = bin) \<longrightarrow>
       create_location now draws side row bin vehicle_id d
         = Some (Inr \<lparr>l_location_id = k, l_vehicle_id = vehicle_id, l_side = side,
                      l_row = row, l_bin = bin, l_created_at = now, l_updated_at = now,
                      l_last_audited_at = None\<rparr>,
                 draws',
                 d1\<lparr>tbl_Location := tbl_Location d @
                      [\<lparr>l_location_id = k, l_vehicle_id = vehicle_id, l_side = side,
                      l_row = row, l_bin = bin, l_created_at = now, l_updated_at = now,
                      l_last_audited_at = None\<rparr>]\<rparr>)"
    using assms
    by (auto simp: create_location_def insert_Location_def d1 fk_vehicle_def Let_def
          uq_location_vehicle_side_row_bin_def split: option.splits)
  have i: "fk_location d (Some location_id) \<and> k \<notin> set (map i_asset_id (tbl_Inventory d)) \<longrightarrow>
       create_inventory now draws description location_id consumable manufacturer model
           serial_number d
         = Some (Inr \<lparr>i_asset_id = k, i_description = description,
                     i_location_id = location_id,
                     i_consumable = (if consumable then 1 else 0),
                     i_manufacturer = manufacturer, i_model = model,
                     i_serial_number = serial_number, i_created_at = now, i_updated_at = now\<rparr>,
                 draws',
                 d1\<lparr>tbl_Inventory := tbl_Inventory d @
                      [\<lparr>i_asset_id = k, i_description = description,
                     i_location_id = location_id,
                     i_consumable = (if consumable then 1 else 0),
                     i_manufacturer = manufacturer, i_model = model,
                     i_serial_number = serial_number, i_created_at = now, i_updated_at = now\<rparr>]\<rparr>)"
    using assms
    by (simp add: create_inventory_def insert_Inventory_def d1 fk_location_def Let_def)
  have f: "\<forall>e rs d'.
        create_vehicle now draws vehicle_type vehicle_name vin vehicle_number mileage last_service d
          = Some (Inl e, rs, d')
        \<or> create_location now draws side row bin vehicle_id d = Some (Inl e, rs, d')
        \<or> create_inventory now draws description location_id consumable manufacturer model
             serial_number d = Some (Inl e, rs, d')
        \<longrightarrow> d' = d1"
    using assms
    by (auto simp: create_vehicle_def create_location_def create_inventory_def Let_def
          split: sum.splits)
  from d1 v l i f show ?thesis by blast
qed

theorem create_without_validation_witness:
  "generate_global_id [9] demo_db = Some (''00000009'', [], demo_db_9)
   \<and> demo_db_9 = demo_db\<lparr>tbl_GlobalId := tbl_GlobalId demo_db @ [''00000009'']\<rparr>
   \<and> vehicle_type_check ''Truck''
   \<and> ''00000009'' \<notin> set (map v_vehicle_id (tbl_Vehicle demo_db))
   \<and> create_vehicle ''2024-02-02T10:00:00'' [9] ''Truck'' [] [] 1 0 0 demo_db
     = Some (Inr blank_vehicle, [],
             demo_db_9\<lparr>tbl_Vehicle := tbl_Vehicle demo_db @ [blank_vehicle]\<rparr>)
   \<and> fk_vehicle demo_db None
   \<and> ''00000009'' \<notin> set (map l_location_id (tbl_Location demo_db))
   \<and> create_location ''2024-02-02T10:00:00'' [9] [] 1 1 None demo_db
     = Some (Inr blank_location, [],
             demo_db_9\<lparr>tbl_Location := tbl_Location demo_db @ [blank_location]\<rparr>)
   \<and> fk_location demo_db (Some ''00000002'')
   \<and> ''00000009'' \<notin> set (map i_asset_id (tbl_Inventory demo_db))
   \<and> create_inventory ''2024-02-02T10:00:00'' [9] [] ''00000002'' False None None None demo_db
     = Some (Inr blank_item, [],
             demo_db_9\<lparr>tbl_Inventory := tbl_Inventory demo_db @ [blank_item]\<rparr>)
   \<and> create_vehicle ''2024-02-02T10:00:00'' [9] ''Car'' [] [] 1 0 0 demo_db
     = Some (Inl (IntegrityError Check), [], demo_db_9)"
proof -
  note t = create_without_validation[OF generate_global_id_demo,
      where now = "''2024-02-02T10:00:00''" and vehicle_name = "[]" and vin = "[]"
        and vehicle_number = 1 and mileage = 0 and last_service = 0
        and side = "[]" and row = 1 and bin = 1 and vehicle_id = None
        and description = "[]" and location_id = "''00000002''" and consumable = False
        and manufacturer = None and model = None and serial_number = None]
  have h: "vehicle_type_check ''Truck''"
    "''00000009'' \<notin> set (map v_vehicle_id (tbl_Vehicle demo_db))"
    "fk_vehicle demo_db None"
    "''00000009'' \<notin> set (map l_location_id (tbl_Location demo_db))"
    "fk_location demo_db (Some ''00000002'')"
    "''00000009'' \<notin> set (map i_asset_id (tbl_Inventory demo_db))"
    by (simp_all add: vehicle_type_check_def fk_vehicle_def fk_location_def demo_db_def
          demo_vehicle_def demo_location_def demo_item_def)
  have c: "create_vehicle ''2024-02-02T10:00:00'' [9] ''Car'' [] [] 1 0 0 demo_db
     = Some (Inl (IntegrityError Check), [], demo_db_9)"
    by (simp only: create_vehicle_def generate_global_id_demo)
       (simp add: Let_def insert_Vehicle_def vehicle_type_check_def)
  from t[where vehicle_type = "''Truck''"] h
  have "demo_db_9 = demo_db\<lparr>tbl_GlobalId := tbl_GlobalId demo_db @ [''00000009'']\<rparr>"
    and "create_vehicle ''2024-02-02T10:00:00'' [9] ''Truck'' [] [] 1 0 0 demo_db
     = Some (Inr blank_vehicle, [],
             demo_db_9\<lparr>tbl_Vehicle := tbl_Vehicle demo_db @ [blank_vehicle]\<rparr>)"
    and "create_location ''2024-02-02T10:00:00'' [9] [] 1 1 None demo_db
     = Some (Inr blank_location, [],
             demo_db_9\<lparr>tbl_Location := tbl_Location demo_db @ [blank_location]\<rparr>)"
    and "create_inventory ''2024-02-02T10:00:00'' [9] [] ''00000002'' False None None None demo_db
     = Some (Inr blank_item, [],
             demo_db_9\<lparr>tbl_Inventory := tbl_Inventory demo_db @ [blank_item]\<rparr>)"
    by (simp_all add: blank_vehicle_def blank_location_def blank_item_def demo_db_def
          demo_location_def)
  with h c generate_global_id_demo show ?thesis by simp
qed

subsection \<open>Updates\<close>

lemma map_update_missing:
  "k \<notin> set (map key xs) \<Longrightarrow> map (\<lambda>x. if key x = k then f x else x) xs = xs"
  by (induction xs) auto

text \<open>
  C5, as claimed, fails: an update of an identifier that is in no row, with a field
  provided, returns normally and leaves the store as it was.
\<close>

theorem update_missing_id_counterexample:
  "''99999999'' \<notin> set (map v_vehicle_id (tbl_Vehicle demo_db))
   \<and> update_vehicle ''2024-03-03T09:00:00'' ''99999999'' None None None None (Some 500) None demo_db
       = (Inr (), demo_db)
   \<and> ''99999999'' \<notin> set (map l_location_id (tbl_Location demo_db))
   \<and> update_location ''2024-03-03T09:00:00'' ''99999999'' (Some ''Right'') None None None None demo_db
       = (Inr (), demo_db)
   \<and> ''99999999'' \<notin> set (map i_asset_id (tbl_Inventory demo_db))
   \<and> update_inventory ''2024-03-03T09:00:00'' ''99999999'' (Some ''Wrench'') None None None None None
         demo_db
       = (Inr (), demo_db)"
  by (simp add: update_vehicle_def update_location_def update_inventory_def execute_commit_def
        Let_def update_Vehicle_def update_Location_def update_Inventory_def demo_db_def demo_vehicle_def
        demo_location_def demo_item_def)

text \<open>
  C5, amended. For an identifier that is in no row of the table, \<^verbatim>\<open>update_vehicle\<close>,
  \<^verbatim>\<open>update_location\<close> and \<^verbatim>\<open>update_inventory\<close> return without an error, whatever
  fields are provided, and the store is unchanged: the UPDATE matches no row and the
  repository does not look at the row count.
\<close>

theorem update_missing_id_noop:
  "(vehicle_id \<notin> set (map v_vehicle_id (tbl_Vehicle d)) \<longrightarrow>
      update_vehicle now vehicle_id vehicle_type vehicle_name vin vehicle_number mileage
        last_service d = (Inr (), d))
   \<and> (location_id \<notin> set (map l_location_id (tbl_Location d)) \<longrightarrow>
      update_location now location_id side row bin l_vehicle last_audited_at d = (Inr (), d))
   \<and> (asset_id \<notin> set (map i_asset_id (tbl_Inventory d)) \<longrightarrow>
      update_inventory now asset_id description i_location consumable manufacturer model
        serial_number d = (Inr (), d))"
proof (intro conjI impI)
  assume a: "vehicle_id \<notin> set (map v_vehicle_id (tbl_Vehicle d))"
  then have "\<not> (\<exists>v \<in> set (tbl_Vehicle d). v_vehicle_id v = vehicle_id)" by auto
  with map_update_missing[OF a]
  show "update_vehicle now vehicle_id vehicle_type vehicle_name vin vehicle_number mileage
        last_service d = (Inr (), d)"
    by (simp add: update_vehicle_def execute_commit_def update_Vehicle_def)
next
  assume a: "location_id \<notin> set (map l_location_id (tbl_Location d))"
  then have "\<not> (\<exists>l \<in> set (tbl_Location d). l_location_id l = location_id)" by auto
  with map_update_missing[OF a]
  show "update_location now location_id side row bin l_vehicle last_audited_at d = (Inr (), d)"
    by (simp add: update_location_def execute_commit_def update_Location_def)
next
  assume a: "asset_id \<notin> set (map i_asset_id (tbl_Inventory d))"
  then have "\<not> (\<exists>i \<in> set (tbl_Inventory d). i_asset_id i = asset_id)" by auto
  with map_update_missing[OF a]
  show "update_inventory now asset_id description i_location consumable manufacturer model
        serial_number d = (Inr (), d)"
    by (simp add: update_inventory_def execute_commit_def update_Inventory_def Let_def)
qed

theorem update_missing_id_noop_witness:
  "''99999999'' \<notin> set (map v_vehicle_id (tbl_Vehicle demo_db))
   \<and> update_vehicle ''2024-03-03T09:00:00'' ''99999999'' None None None None (Some 500) None demo_db
       = (Inr (), demo_db)
   \<and> ''99999999'' \<notin> set (map l_location_id (tbl_Location demo_db))
   \<and> update_location ''2024-03-03T09:00:00'' ''99999999'' (Some ''Right'') None None None None demo_db
       = (Inr (), demo_db)
   \<and> ''99999999'' \<notin> set (map i_asset_id (tbl_Inventory demo_db))
   \<and> update_inventory ''2024-03-03T09:00:00'' ''99999999'' (Some ''Wrench'') None None None None None
         demo_db
       = (Inr (), demo_db)"
proof -
  have h: "''99999999'' \<notin> set (map v_vehicle_id (tbl_Vehicle demo_db))"
    "''99999999'' \<notin> set (map l_location_id (tbl_Location demo_db))"
    "''99999999'' \<notin> set (map i_asset_id (tbl_Inventory demo_db))"
    by (simp_all add: demo_db_def demo_vehicle_def demo_location_def demo_item_def)
  from update_missing_id_noop[where d = demo_db and vehicle_id = "''99999999''"
      and location_id = "''99999999''" and asset_id = "''99999999''"] h
  show ?thesis by blast
qed

text \<open>
  C6. \<^verbatim>\<open>update_vehicle\<close> with only \<^verbatim>\<open>mileage\<close> provided succeeds and the store
  differs only in the Vehicle rows with that identifier, where \<^verbatim>\<open>mileage\<close> and
  \<^verbatim>\<open>updated_at\<close> are replaced and every other field is kept; the vehicle read back
  is the old one with these two fields changed; every vehicle with another identifier is
  still there; all other tables are untouched. With no field provided the store is
  returned as it is.
\<close>

theorem update_vehicle_mileage:
  "update_vehicle now vehicle_id None None None None (Some m) None d
     = (Inr (), d\<lparr>tbl_Vehicle :=
          map (\<lambda>v. if v_vehicle_id v = vehicle_id then v\<lparr>v_mileage := m, v_updated_at := now\<rparr> else v)
            (tbl_Vehicle d)\<rparr>)
   \<and> (v \<in> set (tbl_Vehicle d) \<and> v_vehicle_id v = vehicle_id
        \<and> distinct (map v_vehicle_id (tbl_Vehicle d)) \<longrightarrow>
      get_vehicle (snd (update_vehicle now vehicle_id None None None None (Some m) None d))
          vehicle_id
        = Some (v\<lparr>v_mileage := m, v_updated_at := now\<rparr>))
   \<and> (\<forall>u \<in> set (tbl_Vehicle d). v_vehicle_id u \<noteq> vehicle_id \<longrightarrow>
        u \<in> set (tbl_Vehicle
               (snd (update_vehicle now vehicle_id None None None None (Some m) None d))))
   \<and> update_vehicle now vehicle_id None None None None None None d = (Inr (), d)"
proof -
  let ?g = "\<lambda>v. if v_vehicle_id v = vehicle_id then v\<lparr>v_mileage := m, v_updated_at := now\<rparr> else v"
  have r: "update_vehicle now vehicle_id None None None None (Some m) None d
     = (Inr (), d\<lparr>tbl_Vehicle := map ?g (tbl_Vehicle d)\<rparr>)"
    by (simp add: update_vehicle_def execute_commit_def update_Vehicle_def set_Vehicle_def
          patch_def)
  have g: "get_vehicle (d\<lparr>tbl_Vehicle := map ?g (tbl_Vehicle d)\<rparr>) vehicle_id
        = Some (v\<lparr>v_mileage := m, v_updated_at := now\<rparr>)"
    if a: "v \<in> set (tbl_Vehicle d)" "v_vehicle_id v = vehicle_id"
      "distinct (map v_vehicle_id (tbl_Vehicle d))"
  proof -
    have "find (\<lambda>y. v_vehicle_id y = vehicle_id) (map ?g (tbl_Vehicle d))
        = map_option ?g (find (\<lambda>y. v_vehicle_id y = vehicle_id) (tbl_Vehicle d))"
      by (rule find_map_key) simp
    also have "\<dots> = Some (?g v)"
      using find_distinct_key[OF a(3) a(1)] a(2) by simp
    finally show ?thesis using a(2) by (simp add: get_vehicle_def)
  qed
  have o: "\<forall>u \<in> set (tbl_Vehicle d). v_vehicle_id u \<noteq> vehicle_id \<longrightarrow>
        u \<in> set (map ?g (tbl_Vehicle d))"
  proof (intro ballI impI)
    fix u assume u: "u \<in> set (tbl_Vehicle d)" "v_vehicle_id u \<noteq> vehicle_id"
    from u(1) have "?g u \<in> set (map ?g (tbl_Vehicle d))" by (simp only: set_map) blast
    with u(2) show "u \<in> set (map ?g (tbl_Vehicle d))" by simp
  qed
  have n: "update_vehicle now vehicle_id None None None None None None d = (Inr (), d)"
    by (simp add: update_vehicle_def)
  from r g o n show ?thesis by simp
qed

theorem update_vehicle_mileage_witness:
  "demo_vehicle \<in> set (tbl_Vehicle fleet_db) \<and> v_vehicle_id demo_vehicle = ''00000005''
   \<and> distinct (map v_vehicle_id (tbl_Vehicle fleet_db))
   \<and> update_vehicle ''2024-03-03T09:00:00'' ''00000005'' None None None None (Some 500) None
        fleet_db
       = (Inr (), fleet_db\<lparr>tbl_Vehicle :=
            [demo_vehicle\<lparr>v_mileage := 500, v_updated_at := ''2024-03-03T09:00:00''\<rparr>,
             other_vehicle]\<rparr>)
   \<and> get_vehicle (snd (update_vehicle ''2024-03-03T09:00:00'' ''00000005'' None None None None
        (Some 500) None fleet_db)) ''00000005''
       = Some (demo_vehicle\<lparr>v_mileage := 500, v_updated_at := ''2024-03-03T09:00:00''\<rparr>)
   \<and> other_vehicle \<in> set (tbl_Vehicle fleet_db) \<and> v_vehicle_id other_vehicle \<noteq> ''00000005''
   \<and> other_vehicle \<in> set (tbl_Vehicle (snd (update_vehicle ''2024-03-03T09:00:00''
        ''00000005'' None None None None (Some 500) None fleet_db)))
   \<and> update_vehicle ''2024-03-03T09:00:00'' ''00000005'' None None None None None None fleet_db
       = (Inr (), fleet_db)"
proof -
  have h: "demo_vehicle \<in> set (tbl_Vehicle fleet_db)" "v_vehicle_id demo_vehicle = ''00000005''"
    "distinct (map v_vehicle_id (tbl_Vehicle fleet_db))"
    "other_vehicle \<in> set (tbl_Vehicle fleet_db)" "v_vehicle_id other_vehicle \<noteq> ''00000005''"
    "tbl_Vehicle fleet_db = [demo_vehicle, other_vehicle]"
    by (simp_all add: fleet_db_def demo_vehicle_def other_vehicle_def)
  note t = update_vehicle_mileage[where d = fleet_db and v = demo_vehicle
      and vehicle_id = "''00000005''" and m = 500 and now = "''2024-03-03T09:00:00''"]
  from t h(2,5,6)
  have a: "update_vehicle ''2024-03-03T09:00:00'' ''00000005'' None None None None (Some 500)
        None fleet_db
       = (Inr (), fleet_db\<lparr>tbl_Vehicle :=
            [demo_vehicle\<lparr>v_mileage := 500, v_updated_at := ''2024-03-03T09:00:00''\<rparr>,
             other_vehicle]\<rparr>)"
    by simp
  from t h(1,2,3)
  have b: "get_vehicle (snd (update_vehicle ''2024-03-03T09:00:00'' ''00000005'' None None None
        None (Some 500) None fleet_db)) ''00000005''
       = Some (demo_vehicle\<lparr>v_mileage := 500, v_updated_at := ''2024-03-03T09:00:00''\<rparr>)"
    by blast
  from t h(4,5)
  have c: "other_vehicle \<in> set (tbl_Vehicle (snd (update_vehicle ''2024-03-03T09:00:00''
        ''00000005'' None None None None (Some 500) None fleet_db)))"
    by blast
  from t
  have n: "update_vehicle ''2024-03-03T09:00:00'' ''00000005'' None None None None None None
        fleet_db = (Inr (), fleet_db)"
    by blast
  from a b c n h(1-5) show ?thesis by blast
qed

subsection \<open>Filtered listings\<close>

lemma like_ascii_examples:
  "sql_like ''%oil%'' ''Oil filter''" "\<not> sql_like ''%oil%'' ''Wrench''"
  by code_simp+

text \<open>\<^verbatim>\<open>_\<close> takes one character, here the two bytes of e with acute accent.\<close>

lemma like_character_examples:
  "utf8_codes [CHR ''a'', CHR 0xC3, CHR 0xA9, CHR ''b''] = [97, 233, 98]"
  "sql_like ''%a_b%'' [CHR ''a'', CHR 0xC3, CHR 0xA9, CHR ''b'']"
  "\<not> sql_like ''a__b'' [CHR ''a'', CHR 0xC3, CHR 0xA9, CHR ''b'']"
  by (simp_all add: sql_like_def utf8_value_def utf8_lead_def utf8_continuation_def
        like_fold_def)

lemma is_desc_examples: "is_desc ''desc''" "\<not> is_desc ''ASC''"
  "is_desc [CHR ''d'', CHR ''e'', CHR 0xC5, CHR 0xBF, CHR ''c'']"
  by code_simp+


lemma stock_listing:
  "list_inventory_filtered stock_db ''oil'' (- 1) 0 ''description'' ''ASC'' = ([demo_item], 1)"
  "list_inventory_filtered stock_db [] (- 1) 1 ''description'' ''DESC'' = ([demo_item], 2)"
  "list_inventory_view_filtered (\<lambda>t n. False) stock_db
       [(''consumable'', FStr ''Yes''), (''global'', FStr ''oil''), (''row'', FInt 1)]
       ''row'' ''desc'' (- 1) 0
     = ([view_row demo_item demo_location (Some demo_vehicle)], 1)"
  by code_simp+

lemma length_order_rows: "length (order_rows desc col rows) = length rows"
  by (simp add: order_rows_def)







subsection \<open>Pruning\<close>

lemma unlink_loop_eq:
  "unlink_loop can_unlink paths (removed, files)
     = (removed @ filter can_unlink paths,
        filter (\<lambda>f. f \<notin> set (filter can_unlink paths)) files)"
proof (induction paths arbitrary: removed files)
  case Nil
  then show ?case by simp
next
  case (Cons p ps)
  show ?case
  proof (cases "can_unlink p")
    case True
    have "filter (\<lambda>f. f \<notin> set (filter can_unlink ps)) (filter (\<lambda>f. f \<noteq> p) files)
        = filter (\<lambda>f. f \<notin> set (filter can_unlink (p # ps))) files"
      using True by (auto intro: filter_cong)
    with True Cons.IH show ?thesis by simp
  next
    case False
    with Cons.IH show ?thesis by simp
  qed
qed

lemma filter_not_in_take:
  "distinct xs \<Longrightarrow> filter (\<lambda>x. x \<notin> set (take k xs)) xs = drop k xs"
proof -
  assume d: "distinct xs"
  let ?P = "\<lambda>x. x \<notin> set (take k xs)"
  have "distinct (take k xs @ drop k xs)" using d by simp
  then have disj: "set (take k xs) \<inter> set (drop k xs) = {}" by (simp only: distinct_append)
  have t: "filter ?P (take k xs) = []" by (simp add: filter_empty_conv)
  have r: "filter ?P (drop k xs) = drop k xs" using disj by (auto simp: filter_id_conv)
  have "filter ?P xs = filter ?P (take k xs @ drop k xs)" by simp
  also have "\<dots> = filter ?P (take k xs) @ filter ?P (drop k xs)" by (simp only: filter_append)
  also have "\<dots> = drop k xs" by (simp only: t r append_Nil)
  finally show ?thesis .
qed

lemma take_before_drop:
  fixes xs :: "'a::linorder list"
  assumes "sorted xs" "distinct xs" "r \<in> set (take k xs)" "s \<in> set (drop k xs)"
  shows "r < s"
proof -
  have "sorted (take k xs @ drop k xs)" "distinct (take k xs @ drop k xs)"
    using assms(1,2) by simp_all
  then have "r \<le> s" "r \<noteq> s" using assms(3,4)
    by (auto simp only: sorted_append distinct_append)
  then show ?thesis by simp
qed

lemma append_less_append_prefix:
  fixes a b :: "'a::linorder list"
  shows "(p @ a < p @ b) = (a < b)"
  by (induction p) simp_all

lemma append_less_append_suffix:
  fixes a b :: "'a::linorder list"
  shows "length a = length b \<Longrightarrow> (a @ s < b @ s) = (a < b)"
  by (induction a b rule: list_induct2) auto

lemma backup_name_less:
  "length t1 = length t2 \<Longrightarrow> (backup_name t1 < backup_name t2) = (t1 < t2)"
  unfolding backup_name_def
  by (simp only: append_less_append_prefix append_less_append_suffix)

lemma backup_dir_sorted:
  "sort (filter glob_match backup_dir)
     = [''inventory_20240101_000001.db'', ''inventory_20240101_000002.db'',
        ''inventory_20240101_000003.db'', ''inventory_20240101_000004.db'',
        ''inventory_20240101_000005.db'', ''inventory_20240102_000000.db'']"
  by code_simp

lemma backup_dir_distinct: "distinct backup_dir"
  by code_simp

text \<open>
  C8, as claimed, fails in its example: with retention 3, five earlier backups and the
  new one, \<^verbatim>\<open>prune_backups\<close> removes the three oldest files, not two.
\<close>

theorem prune_six_counterexample:
  "prune_backups (\<lambda>f. True) backup_dir 3
     = ([''inventory_20240101_000001.db'', ''inventory_20240101_000002.db'',
         ''inventory_20240101_000003.db''],
        [''inventory_20240102_000000.db'', ''notes.txt'', ''inventory_20240101_000005.db'',
         ''inventory_20240101_000004.db''])
   \<and> fst (prune_backups (\<lambda>f. True) backup_dir 3)
       \<noteq> [''inventory_20240101_000001.db'', ''inventory_20240101_000002.db'']"
  by code_simp

text \<open>
  C8, amended. The backups of a directory are its files named \<^verbatim>\<open>inventory_*.db\<close>,
  ordered by name; for names made by \<^verbatim>\<open>backup_database\<close> from timestamps of one
  length this is the order of the timestamps. With retention \<open>R \<le> 0\<close> nothing is removed.
  With \<open>R > 0\<close> the files removed, which are the files returned, are those among the
  oldest beyond the \<open>R\<close> newest whose unlink succeeds, and the directory afterwards is the
  directory without them. When every unlink succeeds these are exactly the oldest beyond
  the \<open>R\<close> newest: the backups left are the \<open>R\<close> newest (all of them when there are at
  most \<open>R\<close>), and each removed file is older than each backup left. With retention 3 and
  six backups the three oldest go and the three newest stay.
\<close>

theorem prune_backups_retention:
  assumes "distinct files"
  shows "(R \<le> 0 \<longrightarrow> prune_backups can_unlink files R = ([], files))
   \<and> (0 < R \<longrightarrow>
        fst (prune_backups can_unlink files R)
          = filter can_unlink
              (take (length (sort (filter glob_match files)) - nat R)
                 (sort (filter glob_match files))))
   \<and> snd (prune_backups can_unlink files R)
       = filter (\<lambda>f. f \<notin> set (fst (prune_backups can_unlink files R))) files
   \<and> (0 < R \<and> (\<forall>f \<in> set files. can_unlink f) \<longrightarrow>
        fst (prune_backups can_unlink files R)
          = take (length (sort (filter glob_match files)) - nat R)
              (sort (filter glob_match files))
        \<and> sort (filter glob_match (snd (prune_backups can_unlink files R)))
          = drop (length (sort (filter glob_match files)) - nat R)
              (sort (filter glob_match files))
        \<and> length (filter glob_match (snd (prune_backups can_unlink files R)))
          = min (nat R) (length (filter glob_match files))
        \<and> (\<forall>r \<in> set (fst (prune_backups can_unlink files R)).
             \<forall>s \<in> set (filter glob_match (snd (prune_backups can_unlink files R))). r < s))
   \<and> (\<forall>t1 t2. length t1 = length t2 \<longrightarrow> (backup_name t1 < backup_name t2) = (t1 < t2))"
proof -
  let ?bs = "sort (filter glob_match files)"
  let ?k = "length ?bs - nat R"
  let ?p = "prune_backups can_unlink files R"
  have a: "R \<le> 0 \<longrightarrow> ?p = ([], files)" by (simp add: prune_backups_def)
  have b: "fst ?p = filter can_unlink (take ?k ?bs)" if "0 < R"
    using that by (auto simp: prune_backups_def Let_def unlink_loop_eq)
  have c: "snd ?p = filter (\<lambda>f. f \<notin> set (fst ?p)) files"
    by (auto simp: prune_backups_def Let_def unlink_loop_eq)
  have d: "fst ?p = take ?k ?bs \<and> sort (filter glob_match (snd ?p)) = drop ?k ?bs
        \<and> length (filter glob_match (snd ?p)) = min (nat R) (length (filter glob_match files))
        \<and> (\<forall>r \<in> set (fst ?p). \<forall>s \<in> set (filter glob_match (snd ?p)). r < s)"
    if R: "0 < R" and all: "\<forall>f \<in> set files. can_unlink f"
  proof -
    have "\<forall>f \<in> set (take ?k ?bs). can_unlink f"
      using all by (auto dest!: in_set_takeD)
    then have "filter can_unlink (take ?k ?bs) = take ?k ?bs" by (simp add: filter_id_conv)
    with b[OF R] have f: "fst ?p = take ?k ?bs" by simp
    have dbs: "distinct ?bs" using assms by simp
    have "sort (filter glob_match (snd ?p))
        = sort (filter (\<lambda>f. f \<notin> set (take ?k ?bs)) (filter glob_match files))"
      using c f by (simp add: conj_commute)
    also have "\<dots> = filter (\<lambda>f. f \<notin> set (take ?k ?bs)) ?bs"
      by (simp only: filter_sort)
    also have "\<dots> = drop ?k ?bs" by (rule filter_not_in_take[OF dbs])
    finally have sd: "sort (filter glob_match (snd ?p)) = drop ?k ?bs" .
    have "length (filter glob_match (snd ?p)) = length (sort (filter glob_match (snd ?p)))"
      by simp
    also have "\<dots> = length (drop ?k ?bs)" by (simp only: sd)
    also have "\<dots> = min (nat R) (length (filter glob_match files))" using R by auto
    finally have l: "length (filter glob_match (snd ?p))
        = min (nat R) (length (filter glob_match files))" .
    have o: "\<forall>r \<in> set (fst ?p). \<forall>s \<in> set (filter glob_match (snd ?p)). r < s"
    proof (intro ballI)
      fix r s assume rm: "r \<in> set (fst ?p)" and kp: "s \<in> set (filter glob_match (snd ?p))"
      from kp have "s \<in> set (sort (filter glob_match (snd ?p)))" by simp
      then have "s \<in> set (drop ?k ?bs)" by (simp only: sd)
      moreover from rm f have "r \<in> set (take ?k ?bs)" by simp
      moreover have "sorted ?bs" by simp
      ultimately show "r < s" using dbs by (blast intro: take_before_drop)
    qed
    from f sd l o show ?thesis by blast
  qed
  have e: "\<forall>t1 t2. length t1 = length t2 \<longrightarrow> (backup_name t1 < backup_name t2) = (t1 < t2)"
    by (simp add: backup_name_less)
  from a b c d e show ?thesis by blast
qed

theorem prune_backups_retention_witness:
  "distinct backup_dir
   \<and> prune_backups (\<lambda>f. True) backup_dir 0 = ([], backup_dir)
   \<and> list_all (\<lambda>f. True) backup_dir
   \<and> fst (prune_backups (\<lambda>f. True) backup_dir 3)
       = [''inventory_20240101_000001.db'', ''inventory_20240101_000002.db'',
          ''inventory_20240101_000003.db'']
   \<and> sort (filter glob_match (snd (prune_backups (\<lambda>f. True) backup_dir 3)))
       = [''inventory_20240101_000004.db'', ''inventory_20240101_000005.db'',
          ''inventory_20240102_000000.db'']
   \<and> length ''20240101_000005'' = length ''20240102_000000''
   \<and> backup_name ''20240101_000005'' < backup_name ''20240102_000000''
   \<and> ''20240101_000005'' < ''20240102_000000''"
proof -
  note t = prune_backups_retention[OF backup_dir_distinct, where can_unlink = "\<lambda>f. True"]
  from t[where R = 0] have a: "prune_backups (\<lambda>f. True) backup_dir 0 = ([], backup_dir)"
    by simp
  have p: "(0::int) < 3" "\<forall>f \<in> set backup_dir. True" by simp_all
  from t[where R = 3] p
  have b0: "fst (prune_backups (\<lambda>f. True) backup_dir 3)
       = take (length (sort (filter glob_match backup_dir)) - nat 3)
           (sort (filter glob_match backup_dir))"
    and c0: "sort (filter glob_match (snd (prune_backups (\<lambda>f. True) backup_dir 3)))
       = drop (length (sort (filter glob_match backup_dir)) - nat 3)
           (sort (filter glob_match backup_dir))"
    by blast+
  from b0
  have b: "fst (prune_backups (\<lambda>f. True) backup_dir 3)
       = [''inventory_20240101_000001.db'', ''inventory_20240101_000002.db'',
          ''inventory_20240101_000003.db'']"
    by (simp only: backup_dir_sorted) simp
  from c0
  have c: "sort (filter glob_match (snd (prune_backups (\<lambda>f. True) backup_dir 3)))
       = [''inventory_20240101_000004.db'', ''inventory_20240101_000005.db'',
          ''inventory_20240102_000000.db'']"
    by (simp only: backup_dir_sorted) simp
  have l: "length ''20240101_000005'' = length ''20240102_000000''" by simp
  have o: "''20240101_000005'' < ''20240102_000000''" by code_simp
  from t[where R = 3] l o
  have n: "backup_name ''20240101_000005'' < backup_name ''20240102_000000''" by blast
  from a b c l o n backup_dir_distinct show ?thesis by (simp add: list_all_iff)
qed

subsection \<open>Timestamps\<close>

lemma map_if_created:
  "(\<And>x. c (g x) = c x) \<Longrightarrow> map c (map (\<lambda>x. if key x = k then g x else x) xs) = map c xs"
  by (induction xs) auto

text \<open>What an update leaves: the store itself or the store with the rows patched.\<close>

lemma update_vehicle_store:
  "update_vehicle now vid vt vn vin num mil ls d = (res, d') \<Longrightarrow>
     d' = d \<or>
     d' = d\<lparr>tbl_Vehicle := map (\<lambda>v. if v_vehicle_id v = vid
                                     then set_Vehicle vt vn vin num mil ls now v else v)
                              (tbl_Vehicle d)\<rparr>"
  by (auto simp: update_vehicle_def execute_commit_def update_Vehicle_def
        split: if_splits sum.splits)

lemma update_location_store:
  "update_location now lid side row bin vid laa d = (res, d') \<Longrightarrow>
     d' = d \<or>
     d' = d\<lparr>tbl_Location := map (\<lambda>l. if l_location_id l = lid
                                      then set_Location side row bin vid laa now l else l)
                               (tbl_Location d)\<rparr>"
  by (auto simp: update_location_def execute_commit_def split: if_splits sum.splits
        dest: update_Location_rows)

lemma update_inventory_store:
  "update_inventory now aid ds loc cons man mdl ser d = (res, d') \<Longrightarrow>
     d' = d \<or>
     (\<exists>cv. d' = d\<lparr>tbl_Inventory := map (\<lambda>i. if i_asset_id i = aid
                                       then set_Inventory ds loc cv man mdl ser now i else i)
                                (tbl_Inventory d)\<rparr>)"
  by (auto simp: update_inventory_def execute_commit_def update_Inventory_def Let_def
        split: if_splits sum.splits)

lemma set_Vehicle_stamps:
  "v_created_at (set_Vehicle vt vn vin num mil ls now v) = v_created_at v"
  "v_updated_at (set_Vehicle vt vn vin num mil ls now v) = now"
  by (simp_all add: set_Vehicle_def)

lemma set_Location_stamps:
  "l_created_at (set_Location side row bin vid laa now l) = l_created_at l"
  "l_updated_at (set_Location side row bin vid laa now l) = now"
  by (simp_all add: set_Location_def)

lemma set_Inventory_stamps:
  "i_created_at (set_Inventory ds loc cv man mdl ser now i) = i_created_at i"
  "i_updated_at (set_Inventory ds loc cv man mdl ser now i) = now"
  by (simp_all add: set_Inventory_def)

lemma create_demo:
  "create_vehicle ''2024-02-02T10:00:00'' [9] ''Truck'' [] [] 1 0 0 demo_db
     = Some (Inr blank_vehicle, [],
             demo_db_9\<lparr>tbl_Vehicle := tbl_Vehicle demo_db @ [blank_vehicle]\<rparr>)"
  "create_location ''2024-02-02T10:00:00'' [9] [] 1 1 None demo_db
     = Some (Inr blank_location, [],
             demo_db_9\<lparr>tbl_Location := tbl_Location demo_db @ [blank_location]\<rparr>)"
  "create_inventory ''2024-02-02T10:00:00'' [9] [] ''00000002'' False None None None demo_db
     = Some (Inr blank_item, [],
             demo_db_9\<lparr>tbl_Inventory := tbl_Inventory demo_db @ [blank_item]\<rparr>)"
  by (simp_all only: create_vehicle_def create_location_def create_inventory_def
        generate_global_id_demo)
     (simp_all add: Let_def insert_Vehicle_def insert_Location_def
        insert_Inventory_def vehicle_type_check_def fk_vehicle_def fk_location_def
        uq_location_vehicle_side_row_bin_def blank_vehicle_def blank_location_def
        blank_item_def demo_db_9_def demo_db_def demo_vehicle_def demo_location_def
        demo_item_def)

lemma update_demo:
  "update_vehicle ''2024-03-03T09:00:00'' ''00000005'' None None None None (Some 500) None demo_db
     = (Inr (), demo_db\<lparr>tbl_Vehicle :=
          [demo_vehicle\<lparr>v_mileage := 500, v_updated_at := ''2024-03-03T09:00:00''\<rparr>]\<rparr>)"
  "update_location ''2024-03-03T09:00:00'' ''00000002'' (Some ''Right'') None None None None
       demo_db
     = (Inr (), demo_db\<lparr>tbl_Location :=
          [demo_location\<lparr>l_side := ''Right'', l_updated_at := ''2024-03-03T09:00:00''\<rparr>]\<rparr>)"
  "update_inventory ''2024-03-03T09:00:00'' ''00000003'' (Some ''Wrench'') None None None None
       None demo_db
     = (Inr (), demo_db\<lparr>tbl_Inventory :=
          [demo_item\<lparr>i_description := ''Wrench'', i_updated_at := ''2024-03-03T09:00:00''\<rparr>]\<rparr>)"
  by (simp_all add: update_vehicle_def update_location_def update_inventory_def
        execute_commit_def update_Vehicle_def update_Location_def update_Inventory_def
        set_Vehicle_def set_Location_def set_Inventory_def patch_def Let_def
        uq_location_vehicle_side_row_bin_def demo_db_def demo_vehicle_def demo_location_def
        demo_item_def)

lemma record_audit_demo:
  "record_audit ''2024-05-05T12:00:00'' ''00000003'' ''moved'' None None None None None demo_db
     = (Inr 1,
        demo_db\<lparr>tbl_InventoryAudit :=
            [\<lparr>a_audit_id = 1, a_asset_id = ''00000003'', a_from_location_id = None,
              a_to_location_id = None, a_action = ''moved'', a_notes = None,
              a_audited_at = ''2024-05-05T12:00:00'', a_user = None\<rparr>],
          seq_InventoryAudit := 1\<rparr>)"
  by (simp add: record_audit_def insert_InventoryAudit_def next_audit_id_def fk_location_def
        demo_db_def demo_item_def)

text \<open>
  C9, as claimed, fails for \<^verbatim>\<open>record_audit\<close>: called with an \<^verbatim>\<open>audited_at\<close>, it
  stores that value and not the time of the call.
\<close>

theorem record_audit_caller_time_counterexample:
  "record_audit ''2024-05-05T12:00:00'' ''00000003'' ''moved'' None None None None
       (Some ''1999-12-31T23:59:59'') demo_db
     = (Inr 1,
        demo_db\<lparr>tbl_InventoryAudit :=
            [\<lparr>a_audit_id = 1, a_asset_id = ''00000003'', a_from_location_id = None,
              a_to_location_id = None, a_action = ''moved'', a_notes = None,
              a_audited_at = ''1999-12-31T23:59:59'', a_user = None\<rparr>],
          seq_InventoryAudit := 1\<rparr>)
   \<and> ''1999-12-31T23:59:59'' \<noteq> ''2024-05-05T12:00:00''"
  by (simp add: record_audit_def insert_InventoryAudit_def next_audit_id_def fk_location_def
        demo_db_def demo_item_def)

text \<open>
  C9, amended. The row a create writes and returns has \<^verbatim>\<open>created_at\<close> and
  \<^verbatim>\<open>updated_at\<close> equal to the time the repository read; an update never changes a
  \<^verbatim>\<open>created_at\<close> and every row it changes has \<^verbatim>\<open>updated_at\<close> equal to the time the
  repository read. \<^verbatim>\<open>record_audit\<close> appends one row whose \<^verbatim>\<open>audited_at\<close> is the
  caller's \<^verbatim>\<open>audited_at\<close> when that is given and not empty, and the time the
  repository read otherwise.
\<close>

theorem timestamps_assigned:
  "(create_vehicle now draws vehicle_type vehicle_name vin vehicle_number mileage last_service d
      = Some (Inr v, draws', dv) \<longrightarrow>
      v_created_at v = now \<and> v_updated_at v = now \<and> tbl_Vehicle dv = tbl_Vehicle d @ [v])
   \<and> (create_location now draws side row bin vehicle_id d = Some (Inr l, draws', dl) \<longrightarrow>
      l_created_at l = now \<and> l_updated_at l = now \<and> tbl_Location dl = tbl_Location d @ [l])
   \<and> (create_inventory now draws description location_id consumable manufacturer model
        serial_number d = Some (Inr i, draws', di) \<longrightarrow>
      i_created_at i = now \<and> i_updated_at i = now \<and> tbl_Inventory di = tbl_Inventory d @ [i])
   \<and> (update_vehicle now vid u_type u_name u_vin u_number u_mileage u_service d = (Inr (), uv)
      \<longrightarrow> map v_created_at (tbl_Vehicle uv) = map v_created_at (tbl_Vehicle d)
        \<and> (\<forall>x \<in> set (tbl_Vehicle uv). v_updated_at x = now \<or> x \<in> set (tbl_Vehicle d)))
   \<and> (update_location now lid u_side u_row u_bin u_vehicle u_audited d = (Inr (), ul)
      \<longrightarrow> map l_created_at (tbl_Location ul) = map l_created_at (tbl_Location d)
        \<and> (\<forall>x \<in> set (tbl_Location ul). l_updated_at x = now \<or> x \<in> set (tbl_Location d)))
   \<and> (update_inventory now aid u_description u_location u_consumable u_manufacturer u_model
        u_serial d = (Inr (), ui)
      \<longrightarrow> map i_created_at (tbl_Inventory ui) = map i_created_at (tbl_Inventory d)
        \<and> (\<forall>x \<in> set (tbl_Inventory ui). i_updated_at x = now \<or> x \<in> set (tbl_Inventory d)))
   \<and> (record_audit now asset_id action from_location_id to_location_id notes user audited_at d
        = (Inr audit_id, da) \<longrightarrow>
      (\<exists>a. tbl_InventoryAudit da = tbl_InventoryAudit d @ [a] \<and> a_audit_id a = audit_id
          \<and> a_audited_at a
              = (case audited_at of None \<Rightarrow> now | Some t \<Rightarrow> if t = [] then now else t)))"
proof -
  have c1: "create_vehicle now draws vehicle_type vehicle_name vin vehicle_number mileage
      last_service d = Some (Inr v, draws', dv) \<longrightarrow>
      v_created_at v = now \<and> v_updated_at v = now \<and> tbl_Vehicle dv = tbl_Vehicle d @ [v]"
    by (auto simp: create_vehicle_def Let_def insert_Vehicle_def
          split: option.splits sum.splits if_splits dest!: generate_global_id_Some)
  have c2: "create_location now draws side row bin vehicle_id d = Some (Inr l, draws', dl) \<longrightarrow>
      l_created_at l = now \<and> l_updated_at l = now \<and> tbl_Location dl = tbl_Location d @ [l]"
    by (auto simp: create_location_def Let_def insert_Location_def
          split: option.splits sum.splits if_splits dest!: generate_global_id_Some)
  have c3: "create_inventory now draws description location_id consumable manufacturer model
        serial_number d = Some (Inr i, draws', di) \<longrightarrow>
      i_created_at i = now \<and> i_updated_at i = now \<and> tbl_Inventory di = tbl_Inventory d @ [i]"
    by (auto simp: create_inventory_def Let_def insert_Inventory_def
          split: option.splits sum.splits if_splits dest!: generate_global_id_Some)
  have u1: "update_vehicle now vid u_type u_name u_vin u_number u_mileage u_service d = (Inr (), uv)
      \<longrightarrow> map v_created_at (tbl_Vehicle uv) = map v_created_at (tbl_Vehicle d)
        \<and> (\<forall>x \<in> set (tbl_Vehicle uv). v_updated_at x = now \<or> x \<in> set (tbl_Vehicle d))"
    by (auto simp: map_if_created set_Vehicle_stamps dest!: update_vehicle_store)
  have u2: "update_location now lid u_side u_row u_bin u_vehicle u_audited d = (Inr (), ul)
      \<longrightarrow> map l_created_at (tbl_Location ul) = map l_created_at (tbl_Location d)
        \<and> (\<forall>x \<in> set (tbl_Location ul). l_updated_at x = now \<or> x \<in> set (tbl_Location d))"
    by (auto simp: map_if_created set_Location_stamps dest!: update_location_store)
  have u3: "update_inventory now aid u_description u_location u_consumable u_manufacturer u_model
        u_serial d = (Inr (), ui)
      \<longrightarrow> map i_created_at (tbl_Inventory ui) = map i_created_at (tbl_Inventory d)
        \<and> (\<forall>x \<in> set (tbl_Inventory ui). i_updated_at x = now \<or> x \<in> set (tbl_Inventory d))"
    by (auto simp: map_if_created set_Inventory_stamps dest!: update_inventory_store)
  have r: "record_audit now asset_id action from_location_id to_location_id notes user audited_at d
        = (Inr audit_id, da) \<longrightarrow>
      (\<exists>a. tbl_InventoryAudit da = tbl_InventoryAudit d @ [a] \<and> a_audit_id a = audit_id
          \<and> a_audited_at a
              = (case audited_at of None \<Rightarrow> now | Some t \<Rightarrow> if t = [] then now else t))"
    by (auto simp: record_audit_def insert_InventoryAudit_def Let_def
          split: if_splits sum.splits option.splits)
  from c1 c2 c3 u1 u2 u3 r show ?thesis by (intro conjI)
qed

theorem timestamps_assigned_witness:
  "create_vehicle ''2024-02-02T10:00:00'' [9] ''Truck'' [] [] 1 0 0 demo_db
     = Some (Inr blank_vehicle, [],
             demo_db_9\<lparr>tbl_Vehicle := tbl_Vehicle demo_db @ [blank_vehicle]\<rparr>)
   \<and> v_created_at blank_vehicle = ''2024-02-02T10:00:00''
   \<and> v_updated_at blank_vehicle = ''2024-02-02T10:00:00''
   \<and> create_location ''2024-02-02T10:00:00'' [9] [] 1 1 None demo_db
     = Some (Inr blank_location, [],
             demo_db_9\<lparr>tbl_Location := tbl_Location demo_db @ [blank_location]\<rparr>)
   \<and> l_created_at blank_location = ''2024-02-02T10:00:00''
   \<and> l_updated_at blank_location = ''2024-02-02T10:00:00''
   \<and> create_inventory ''2024-02-02T10:00:00'' [9] [] ''00000002'' False None None None demo_db
     = Some (Inr blank_item, [],
             demo_db_9\<lparr>tbl_Inventory := tbl_Inventory demo_db @ [blank_item]\<rparr>)
   \<and> i_created_at blank_item = ''2024-02-02T10:00:00''
   \<and> i_updated_at blank_item = ''2024-02-02T10:00:00''
   \<and> update_vehicle ''2024-03-03T09:00:00'' ''00000005'' None None None None (Some 500) None
        demo_db
     = (Inr (), demo_db\<lparr>tbl_Vehicle :=
          [demo_vehicle\<lparr>v_mileage := 500, v_updated_at := ''2024-03-03T09:00:00''\<rparr>]\<rparr>)
   \<and> map v_created_at
        [demo_vehicle\<lparr>v_mileage := 500, v_updated_at := ''2024-03-03T09:00:00''\<rparr>]
       = map v_created_at (tbl_Vehicle demo_db)
   \<and> update_location ''2024-03-03T09:00:00'' ''00000002'' (Some ''Right'') None None None None
        demo_db
     = (Inr (), demo_db\<lparr>tbl_Location :=
          [demo_location\<lparr>l_side := ''Right'', l_updated_at := ''2024-03-03T09:00:00''\<rparr>]\<rparr>)
   \<and> map l_created_at
        [demo_location\<lparr>l_side := ''Right'', l_updated_at := ''2024-03-03T09:00:00''\<rparr>]
       = map l_created_at (tbl_Location demo_db)
   \<and> update_inventory ''2024-03-03T09:00:00'' ''00000003'' (Some ''Wrench'') None None None
        None None demo_db
     = (Inr (), demo_db\<lparr>tbl_Inventory :=
          [demo_item\<lparr>i_description := ''Wrench'', i_updated_at := ''2024-03-03T09:00:00''\<rparr>]\<rparr>)
   \<and> map i_created_at
        [demo_item\<lparr>i_description := ''Wrench'', i_updated_at := ''2024-03-03T09:00:00''\<rparr>]
       = map i_created_at (tbl_Inventory demo_db)
   \<and> record_audit ''2024-05-05T12:00:00'' ''00000003'' ''moved'' None None None None None
        demo_db
     = (Inr 1,
        demo_db\<lparr>tbl_InventoryAudit :=
            [\<lparr>a_audit_id = 1, a_asset_id = ''00000003'', a_from_location_id = None,
              a_to_location_id = None, a_action = ''moved'', a_notes = None,
              a_audited_at = ''2024-05-05T12:00:00'', a_user = None\<rparr>],
          seq_InventoryAudit := 1\<rparr>)"
proof -
  note t = timestamps_assigned
  note c2 = conjunct2
  from t[THEN conjunct1, THEN mp, OF create_demo(1)]
  have v: "v_created_at blank_vehicle = ''2024-02-02T10:00:00''"
    "v_updated_at blank_vehicle = ''2024-02-02T10:00:00''" by simp_all
  from t[THEN c2, THEN conjunct1, THEN mp, OF create_demo(2)]
  have l: "l_created_at blank_location = ''2024-02-02T10:00:00''"
    "l_updated_at blank_location = ''2024-02-02T10:00:00''" by simp_all
  from t[THEN c2, THEN c2, THEN conjunct1, THEN mp, OF create_demo(3)]
  have i: "i_created_at blank_item = ''2024-02-02T10:00:00''"
    "i_updated_at blank_item = ''2024-02-02T10:00:00''" by simp_all
  from t[THEN c2, THEN c2, THEN c2, THEN conjunct1, THEN mp, OF update_demo(1)]
  have uv: "map v_created_at
        [demo_vehicle\<lparr>v_mileage := 500, v_updated_at := ''2024-03-03T09:00:00''\<rparr>]
       = map v_created_at (tbl_Vehicle demo_db)" by simp
  from t[THEN c2, THEN c2, THEN c2, THEN c2, THEN conjunct1, THEN mp, OF update_demo(2)]
  have ul: "map l_created_at
        [demo_location\<lparr>l_side := ''Right'', l_updated_at := ''2024-03-03T09:00:00''\<rparr>]
       = map l_created_at (tbl_Location demo_db)" by simp
  from t[THEN c2, THEN c2, THEN c2, THEN c2, THEN c2, THEN conjunct1, THEN mp,
      OF update_demo(3)]
  have ui: "map i_created_at
        [demo_item\<lparr>i_description := ''Wrench'', i_updated_at := ''2024-03-03T09:00:00''\<rparr>]
       = map i_created_at (tbl_Inventory demo_db)" by simp
  from v l i uv ul ui create_demo update_demo record_audit_demo show ?thesis
    by (intro conjI)
qed

subsection \<open>Optional fields under update\<close>

lemma list_all2_map_if:
  "(\<And>x. P x x) \<Longrightarrow> (\<And>x. P x (g x)) \<Longrightarrow>
     list_all2 P xs (map (\<lambda>x. if key x = k then g x else x) xs)"
  by (induction xs) auto

lemma set_Location_optional:
  "l_location_id (set_Location side row bin vid laa now l) = l_location_id l"
  "l_vehicle_id l \<noteq> None \<Longrightarrow> l_vehicle_id (set_Location side row bin vid laa now l) \<noteq> None"
  "l_last_audited_at l \<noteq> None \<Longrightarrow>
     l_last_audited_at (set_Location side row bin vid laa now l) \<noteq> None"
  "l_vehicle_id (set_Location side row bin None laa now l) = l_vehicle_id l"
  "l_last_audited_at (set_Location side row bin vid None now l) = l_last_audited_at l"
  by (simp_all add: set_Location_def split: option.splits)

lemma set_Inventory_optional:
  "i_asset_id (set_Inventory ds loc cv man mdl ser now i) = i_asset_id i"
  "i_manufacturer i \<noteq> None \<Longrightarrow> i_manufacturer (set_Inventory ds loc cv man mdl ser now i) \<noteq> None"
  "i_model i \<noteq> None \<Longrightarrow> i_model (set_Inventory ds loc cv man mdl ser now i) \<noteq> None"
  "i_serial_number i \<noteq> None \<Longrightarrow>
     i_serial_number (set_Inventory ds loc cv man mdl ser now i) \<noteq> None"
  "i_manufacturer (set_Inventory ds loc cv None mdl ser now i) = i_manufacturer i"
  "i_model (set_Inventory ds loc cv man None ser now i) = i_model i"
  "i_serial_number (set_Inventory ds loc cv man mdl None now i) = i_serial_number i"
  by (simp_all add: set_Inventory_def split: option.splits)

text \<open>
  C10. Whatever the arguments and the outcome of \<^verbatim>\<open>update_location\<close>, the Location
  table afterwards has the same rows in the same places, and a row whose
  \<^verbatim>\<open>vehicle_id\<close> or \<^verbatim>\<open>last_audited_at\<close> was not NULL has it not NULL afterwards;
  with \<^verbatim>\<open>None\<close> passed for the field, every stored value of it is as before. The same
  holds for \<^verbatim>\<open>manufacturer\<close>, \<^verbatim>\<open>model\<close> and \<^verbatim>\<open>serial_number\<close> under
  \<^verbatim>\<open>update_inventory\<close>. No update touches the optional fields of another table.
\<close>

theorem update_keeps_optional_fields:
  "(update_location now lid side row bin vid laa d = (res_l, dl) \<longrightarrow>
      list_all2 (\<lambda>l l'. l_location_id l' = l_location_id l
                  \<and> (l_vehicle_id l \<noteq> None \<longrightarrow> l_vehicle_id l' \<noteq> None)
                  \<and> (l_last_audited_at l \<noteq> None \<longrightarrow> l_last_audited_at l' \<noteq> None))
        (tbl_Location d) (tbl_Location dl)
      \<and> (vid = None \<longrightarrow> map l_vehicle_id (tbl_Location dl) = map l_vehicle_id (tbl_Location d))
      \<and> (laa = None \<longrightarrow>
           map l_last_audited_at (tbl_Location dl) = map l_last_audited_at (tbl_Location d))
      \<and> tbl_Inventory dl = tbl_Inventory d)
   \<and> (update_inventory now aid ds loc cons man mdl ser d = (res_i, di) \<longrightarrow>
      list_all2 (\<lambda>i i'. i_asset_id i' = i_asset_id i
                  \<and> (i_manufacturer i \<noteq> None \<longrightarrow> i_manufacturer i' \<noteq> None)
                  \<and> (i_model i \<noteq> None \<longrightarrow> i_model i' \<noteq> None)
                  \<and> (i_serial_number i \<noteq> None \<longrightarrow> i_serial_number i' \<noteq> None))
        (tbl_Inventory d) (tbl_Inventory di)
      \<and> (man = None \<longrightarrow>
           map i_manufacturer (tbl_Inventory di) = map i_manufacturer (tbl_Inventory d))
      \<and> (mdl = None \<longrightarrow> map i_model (tbl_Inventory di) = map i_model (tbl_Inventory d))
      \<and> (ser = None \<longrightarrow>
           map i_serial_number (tbl_Inventory di) = map i_serial_number (tbl_Inventory d))
      \<and> tbl_Location di = tbl_Location d)
   \<and> (update_vehicle now vid' vt vn vin num mil ls d = (res_v, dv) \<longrightarrow>
      tbl_Location dv = tbl_Location d \<and> tbl_Inventory dv = tbl_Inventory d)"
proof (intro conjI impI)
  assume a: "update_location now lid side row bin vid laa d = (res_l, dl)"
  let ?P = "\<lambda>l l'. l_location_id l' = l_location_id l
                  \<and> (l_vehicle_id l \<noteq> None \<longrightarrow> l_vehicle_id l' \<noteq> None)
                  \<and> (l_last_audited_at l \<noteq> None \<longrightarrow> l_last_audited_at l' \<noteq> None)"
  have refl: "list_all2 ?P xs xs" for xs by (simp add: list_all2_same)
  have upd: "list_all2 ?P xs (map (\<lambda>l. if l_location_id l = lid
                         then set_Location side row bin vid laa now l else l) xs)" for xs
    by (rule list_all2_map_if) (simp_all add: set_Location_optional)
  from update_location_store[OF a] refl upd
  show "list_all2 ?P (tbl_Location d) (tbl_Location dl)" by auto
  from update_location_store[OF a]
  show "tbl_Inventory dl = tbl_Inventory d" by auto
  { assume "vid = None"
    with update_location_store[OF a]
    show "map l_vehicle_id (tbl_Location dl) = map l_vehicle_id (tbl_Location d)"
      by (auto simp: map_if_created set_Location_optional) }
  { assume "laa = None"
    with update_location_store[OF a]
    show "map l_last_audited_at (tbl_Location dl) = map l_last_audited_at (tbl_Location d)"
      by (auto simp: map_if_created set_Location_optional) }
next
  assume a: "update_inventory now aid ds loc cons man mdl ser d = (res_i, di)"
  let ?P = "\<lambda>i i'. i_asset_id i' = i_asset_id i
                  \<and> (i_manufacturer i \<noteq> None \<longrightarrow> i_manufacturer i' \<noteq> None)
                  \<and> (i_model i \<noteq> None \<longrightarrow> i_model i' \<noteq> None)
                  \<and> (i_serial_number i \<noteq> None \<longrightarrow> i_serial_number i' \<noteq> None)"
  have refl: "list_all2 ?P xs xs" for xs by (simp add: list_all2_same)
  have upd: "list_all2 ?P xs (map (\<lambda>i. if i_asset_id i = aid
                         then set_Inventory ds loc cv man mdl ser now i else i) xs)" for xs cv
    by (rule list_all2_map_if) (simp_all add: set_Inventory_optional)
  from update_inventory_store[OF a] refl upd
  show "list_all2 ?P (tbl_Inventory d) (tbl_Inventory di)" by auto
  from update_inventory_store[OF a]
  show "tbl_Location di = tbl_Location d" by auto
  { assume "man = None"
    with update_inventory_store[OF a]
    show "map i_manufacturer (tbl_Inventory di) = map i_manufacturer (tbl_Inventory d)"
      by (auto simp: map_if_created set_Inventory_optional) }
  { assume "mdl = None"
    with update_inventory_store[OF a]
    show "map i_model (tbl_Inventory di) = map i_model (tbl_Inventory d)"
      by (auto simp: map_if_created set_Inventory_optional) }
  { assume "ser = None"
    with update_inventory_store[OF a]
    show "map i_serial_number (tbl_Inventory di) = map i_serial_number (tbl_Inventory d)"
      by (auto simp: map_if_created set_Inventory_optional) }
next
  assume a: "update_vehicle now vid' vt vn vin num mil ls d = (res_v, dv)"
  from update_vehicle_store[OF a]
  show "tbl_Location dv = tbl_Location d" "tbl_Inventory dv = tbl_Inventory d" by auto
qed

theorem update_keeps_optional_fields_witness:
  "update_location ''2024-03-03T09:00:00'' ''00000002'' (Some ''Right'') None None None None
       demo_db
     = (Inr (), demo_db\<lparr>tbl_Location :=
          [demo_location\<lparr>l_side := ''Right'', l_updated_at := ''2024-03-03T09:00:00''\<rparr>]\<rparr>)
   \<and> map l_vehicle_id (tbl_Location demo_db) = [Some ''00000005'']
   \<and> map l_vehicle_id
        [demo_location\<lparr>l_side := ''Right'', l_updated_at := ''2024-03-03T09:00:00''\<rparr>]
       = map l_vehicle_id (tbl_Location demo_db)
   \<and> update_inventory ''2024-03-03T09:00:00'' ''00000003'' (Some ''Wrench'') None None None
        None None demo_db
     = (Inr (), demo_db\<lparr>tbl_Inventory :=
          [demo_item\<lparr>i_description := ''Wrench'', i_updated_at := ''2024-03-03T09:00:00''\<rparr>]\<rparr>)
   \<and> map i_manufacturer (tbl_Inventory demo_db) = [Some ''Acme'']
   \<and> map i_manufacturer
        [demo_item\<lparr>i_description := ''Wrench'', i_updated_at := ''2024-03-03T09:00:00''\<rparr>]
       = map i_manufacturer (tbl_Inventory demo_db)
   \<and> update_vehicle ''2024-03-03T09:00:00'' ''00000005'' None None None None (Some 500) None
        demo_db
     = (Inr (), demo_db\<lparr>tbl_Vehicle :=
          [demo_vehicle\<lparr>v_mileage := 500, v_updated_at := ''2024-03-03T09:00:00''\<rparr>]\<rparr>)
   \<and> tbl_Location (demo_db\<lparr>tbl_Vehicle :=
          [demo_vehicle\<lparr>v_mileage := 500, v_updated_at := ''2024-03-03T09:00:00''\<rparr>]\<rparr>)
       = tbl_Location demo_db"
proof -
  note t = update_keeps_optional_fields
  note c2 = conjunct2
  from t[THEN conjunct1, THEN mp, OF update_demo(2)]
  have l: "map l_vehicle_id
        [demo_location\<lparr>l_side := ''Right'', l_updated_at := ''2024-03-03T09:00:00''\<rparr>]
       = map l_vehicle_id (tbl_Location demo_db)" by simp
  from t[THEN c2, THEN conjunct1, THEN mp, OF update_demo(3)]
  have i: "map i_manufacturer
        [demo_item\<lparr>i_description := ''Wrench'', i_updated_at := ''2024-03-03T09:00:00''\<rparr>]
       = map i_manufacturer (tbl_Inventory demo_db)" by simp
  from t[THEN c2, THEN c2, THEN mp, OF update_demo(1)]
  have v: "tbl_Location (demo_db\<lparr>tbl_Vehicle :=
          [demo_vehicle\<lparr>v_mileage := 500, v_updated_at := ''2024-03-03T09:00:00''\<rparr>]\<rparr>)
       = tbl_Location demo_db" by simp
  have e: "map l_vehicle_id (tbl_Location demo_db) = [Some ''00000005'']"
    "map i_manufacturer (tbl_Inventory demo_db) = [Some ''Acme'']"
    by (simp_all add: demo_db_def demo_location_def demo_item_def)
  from l i v e update_demo show ?thesis by (intro conjI)
qed

end
